theory Spec2Isabelle
  imports Main "HOL-Library.Word"
begin

section \<open>Data model\<close>

text \<open>
  The client-side coordination layer of a range-partitioned key-value store: the lock
  resolution sweep of GC, the region split batch orchestrator, the scatter coordinator and
  the pre-split heuristic. Keys are Go byte slices; region ids and timestamps are
  \<open>uint64\<close>.
\<close>

type_synonym key = "8 word list"

record RegionVerID =
  regionID :: "64 word"
  confVer :: "64 word"
  ver :: "64 word"

record KeyLocation =
  Region :: RegionVerID
  StartKey :: key
  EndKey :: key

record LockInfo =
  LockKey :: key
  PrimaryLock :: key
  LockVersion :: "64 word"

record Lock =
  Key :: key
  Primary :: key
  TxnID :: "64 word"

text \<open>\<open>metapb.Region\<close>: only the id is read by this code.\<close>

record metapb_Region =
  Id :: "64 word"

text \<open>
  \<open>RangeTaskStat\<close>: the progress accumulator of one range sweep. \<open>CompletedRegions\<close> is
  a Go \<open>int\<close> (64 bits), so \<open>++\<close> is addition on a 64-bit word.
\<close>

record RangeTaskStat =
  CompletedRegions :: "64 word"
  FailedRegions :: "64 word"

text \<open>
  A Go panic is a value of the model: a nil pointer dereference, an index out of range and
  a failed single-result type assertion.
\<close>

datatype panic = NilPointerDereference | IndexOutOfRange | InterfaceConversion

datatype 'a result = Returns 'a | Panics panic

text \<open>
  Errors. \<open>External n\<close> is any error a collaborator produces; the others are the errors
  this code constructs itself. \<open>errors.Trace\<close> and \<open>errors.AddStack\<close> only attach a
  stack to a non-nil error, so they are the identity here.
\<close>

datatype error =
    GcJobCanceled
  | ErrBodyMissing
  | UnexpectedScanLockError
  | ErrPDServerTimeout
  | PDError nat
  | RegionErrorText nat
  | RemainLocks nat
  | ErrorText error
  | WaitScatterRegionTimeout
  | RecoveredPanic panic
  | External nat

datatype BackoffConfig = BoRegionMiss | BoTxnLock | BoPDRPC

datatype Timeout = ReadTimeoutShort | ReadTimeoutMedium

datatype Request =
    CmdScanLock "64 word" nat key key
  | CmdSplitRegion "key list"

text \<open>
  \<open>tikvrpc.Response\<close> holds an interface value \<open>Resp\<close>: nil, a scan-lock response
  (its key error and its locks), a split response (its regions), or a body of another type.
\<close>

datatype body =
    ScanLockResponse "nat option" "LockInfo list"
  | SplitRegionResponse "metapb_Region list"
  | OtherResponse

record Response =
  Resp :: "body option"

datatype OperatorStatus = SUCCESS | TIMEOUT | CANCEL | REPLACE | RUNNING

text \<open>\<open>pdpb.GetOperatorResponse\<close>: the header's error, the operator's description and status.\<close>

record GetOperatorResponse =
  HeaderError :: "nat option"
  Desc :: "8 word list"
  Status :: OperatorStatus

record batch =
  batchRegionID :: RegionVerID
  keys :: "key list"

record singleBatchResp =
  resp :: "Response option"
  err :: "error option"

text \<open>A mutation group: the keys and values of \<open>group.mutations\<close>, and the group's region.\<close>

record groupedMutations =
  region :: RegionVerID
  mutations :: "(key \<times> 8 word list) list"

text \<open>\<open>pd.WithGroup\<close> of the table id, the only option this code passes.\<close>

datatype RegionsOption = WithGroup "64 word"

datatype ('a, 'r) step = Next 'a | Done 'r

section \<open>Collaborators\<close>

text \<open>
  The region cache, the request sender, the lock resolver, the placement service client,
  the backoff controller, the range task runner and the contexts are not part of this code.
  Each is a function of the state of the world \<open>'w\<close>, which it returns updated; backoffers
  \<open>'b\<close> and contexts \<open>'c\<close> are handles whose state lives in the world. Go's pairs
  \<open>(value, error)\<close> are kept as pairs: a collaborator may return both, or neither.
  \<open>ResolvedCacheSize\<close>, \<open>locateRegionMaxBackoff\<close> and \<open>preSplitSizeThreshold\<close>
  are declared elsewhere and are parameters too, as is \<open>appendKeyBatches\<close>.

  Where goroutines race, the scheduler is a collaborator: \<open>arrival\<close> gives the order in
  which the batches' results reach the channel, and \<open>pickDone\<close> the choice of a
  \<open>select\<close> whose two cases are both ready. \<open>hasDeadline\<close> and \<open>awaitDone\<close> are the
  context's deadline and the wait for its \<open>Done\<close> channel.
\<close>

record ('w, 'b, 'c) env =
  ctxDone :: "'w \<Rightarrow> 'c \<Rightarrow> bool"
  ctxErr :: "'w \<Rightarrow> 'c \<Rightarrow> error"
  Background :: 'c
  GetCtx :: "'b \<Rightarrow> 'c"
  NewGcResolveLockMaxBackoffer :: "'w \<Rightarrow> 'c \<Rightarrow> 'w \<times> 'b"
  NewBackofferWithVars :: "'w \<Rightarrow> 'c \<Rightarrow> int \<Rightarrow> 'w \<times> 'b"
  Fork :: "'w \<Rightarrow> 'b \<Rightarrow> 'w \<times> 'b"
  cancelFork :: "'w \<Rightarrow> 'b \<Rightarrow> 'w"
  Backoff :: "'w \<Rightarrow> 'b \<Rightarrow> BackoffConfig \<Rightarrow> error \<Rightarrow> 'w \<times> error option"
  LocateKey :: "'w \<Rightarrow> 'b \<Rightarrow> key \<Rightarrow> 'w \<times> KeyLocation option \<times> error option"
  Contains :: "KeyLocation \<Rightarrow> key \<Rightarrow> bool"
  SendReq :: "'w \<Rightarrow> 'b \<Rightarrow> Request \<Rightarrow> RegionVerID \<Rightarrow> Timeout \<Rightarrow> 'w \<times> Response option \<times> error option"
  GetRegionError :: "Response \<Rightarrow> nat option \<times> error option"
  NewLock :: "LockInfo \<Rightarrow> Lock"
  BatchResolveLocks :: "'w \<Rightarrow> 'b \<Rightarrow> Lock list \<Rightarrow> RegionVerID \<Rightarrow> 'w \<times> bool \<times> error option"
  ResolvedCacheSize :: nat
  RunOnRange ::
    "('w \<Rightarrow> 'c \<Rightarrow> key \<times> key \<Rightarrow> ('w \<times> (RangeTaskStat \<times> error option) result) option) \<Rightarrow>
     nat \<Rightarrow> 'w \<Rightarrow> 'c \<Rightarrow> key \<Rightarrow> key \<Rightarrow> ('w \<times> error option result) option"
  UpdateGCSafePoint :: "'w \<Rightarrow> 'c \<Rightarrow> 64 word \<Rightarrow> 'w \<times> 64 word \<times> error option"
  GroupKeysByRegion ::
    "'w \<Rightarrow> 'b \<Rightarrow> key list \<Rightarrow> (key \<Rightarrow> key \<Rightarrow> bool) \<Rightarrow>
     'w \<times> (RegionVerID \<times> key list) list \<times> error option"
  appendKeyBatches :: "batch list \<Rightarrow> RegionVerID \<Rightarrow> key list \<Rightarrow> nat \<Rightarrow> batch list"
  GetTotalSleep :: "'w \<Rightarrow> 'b \<Rightarrow> int"
  EvalFailpoint :: "string \<Rightarrow> bool option"
  hasDeadline :: "'c \<Rightarrow> bool"
  awaitDone :: "'w \<Rightarrow> 'c \<Rightarrow> 'w"
  arrival :: "'w \<Rightarrow> batch list \<Rightarrow> batch list"
  pickDone :: "'w \<Rightarrow> bool"
  ScatterRegions :: "'w \<Rightarrow> 'c \<Rightarrow> 64 word list \<Rightarrow> RegionsOption list \<Rightarrow> 'w \<times> error option"
  GetOperator :: "'w \<Rightarrow> 'c \<Rightarrow> 64 word \<Rightarrow> 'w \<times> GetOperatorResponse option \<times> error option"
  InvalidateCachedRegion :: "'w \<Rightarrow> RegionVerID \<Rightarrow> 'w"
  locateRegionMaxBackoff :: int
  preSplitSizeThreshold :: "32 word"

section \<open>Lock resolution sweep\<close>

text \<open>\<open>bytes.Compare\<close>: -1, 0 or 1 by the lexicographic order of unsigned bytes.\<close>

fun bytes_Compare :: "key \<Rightarrow> key \<Rightarrow> int" where
  "bytes_Compare [] [] = 0"
| "bytes_Compare [] (b # bs) = -1"
| "bytes_Compare (a # as) [] = 1"
| "bytes_Compare (a # as) (b # bs) =
     (if a < b then -1 else if b < a then 1 else bytes_Compare as bs)"

definition gcScanLockLimit :: "('w, 'b, 'c) env \<Rightarrow> nat" where
  "gcScanLockLimit env = ResolvedCacheSize env div 2"

text \<open>
  \<open>scanLocksInRegionWithStartKey\<close>: locate the key, send the scan, back off and go round
  again on a region error. The loop has no bound of its own, so not returning is \<open>None\<close>.
  The request's limit is \<open>gcScanLockLimit\<close>, whatever \<open>limit\<close> is.
\<close>

partial_function (option) scanLocksInRegionWithStartKey ::
  "('w, 'b, 'c) env \<Rightarrow> 'w \<Rightarrow> 'b \<Rightarrow> key \<Rightarrow> 64 word \<Rightarrow> nat \<Rightarrow>
   ('w \<times> (Lock list \<times> KeyLocation option \<times> error option) result) option"
where
  "scanLocksInRegionWithStartKey env w bo startKey maxVersion limit =
    (case LocateKey env w bo startKey of
       (w1, loc, Some e) \<Rightarrow> Some (w1, Returns ([], loc, Some e))
     | (w1, None, None) \<Rightarrow> Some (w1, Panics NilPointerDereference)
     | (w1, Some l, None) \<Rightarrow>
        (case SendReq env w1 bo
                (CmdScanLock maxVersion (gcScanLockLimit env) startKey (EndKey l))
                (Region l) ReadTimeoutMedium of
           (w2, r, Some e) \<Rightarrow> Some (w2, Returns ([], Some l, Some e))
         | (w2, None, None) \<Rightarrow> Some (w2, Panics NilPointerDereference)
         | (w2, Some r, None) \<Rightarrow>
            (case GetRegionError env r of
               (regionErr, Some e) \<Rightarrow> Some (w2, Returns ([], Some l, Some e))
             | (Some regionErr, None) \<Rightarrow>
                (case Backoff env w2 bo BoRegionMiss (RegionErrorText regionErr) of
                   (w3, Some e) \<Rightarrow> Some (w3, Returns ([], Some l, Some e))
                 | (w3, None) \<Rightarrow>
                     scanLocksInRegionWithStartKey env w3 bo startKey maxVersion limit)
             | (None, None) \<Rightarrow>
                (case Resp r of
                   None \<Rightarrow> Some (w2, Returns ([], Some l, Some ErrBodyMissing))
                 | Some (ScanLockResponse keyErr locksInfo) \<Rightarrow>
                     (if keyErr \<noteq> None
                      then Some (w2, Returns ([], Some l, Some UnexpectedScanLockError))
                      else Some (w2, Returns (map (NewLock env) locksInfo, Some l, None)))
                 | Some _ \<Rightarrow> Some (w2, Panics InterfaceConversion)))))"

declare scanLocksInRegionWithStartKey.simps [code]

text \<open>
  \<open>batchResolveLocksInARegion\<close>: resolve against the expected location; on "not all
  resolved, no error" back off, locate the first lock's key again and go on with the fresh
  region if it still holds the last lock's key. \<open>(None, None)\<close> is the rescan sentinel.
\<close>

partial_function (option) batchResolveLocksInARegion ::
  "('w, 'b, 'c) env \<Rightarrow> 'w \<Rightarrow> 'b \<Rightarrow> Lock list \<Rightarrow> KeyLocation option \<Rightarrow>
   ('w \<times> (KeyLocation option \<times> error option) result) option"
where
  "batchResolveLocksInARegion env w bo locks resolvedLocation =
    (case resolvedLocation of
       None \<Rightarrow> Some (w, Panics NilPointerDereference)
     | Some rl \<Rightarrow>
        (case BatchResolveLocks env w bo locks (Region rl) of
           (w1, ok, e) \<Rightarrow>
            (if ok then Some (w1, Returns (Some rl, None))
             else if e \<noteq> None then Some (w1, Returns (None, e))
             else
              (case Backoff env w1 bo BoTxnLock (RemainLocks (length locks)) of
                 (w2, Some e2) \<Rightarrow> Some (w2, Returns (None, Some e2))
               | (w2, None) \<Rightarrow>
                  (case locks of
                     [] \<Rightarrow> Some (w2, Panics IndexOutOfRange)
                   | l0 # ls \<Rightarrow>
                      (case LocateKey env w2 bo (Key l0) of
                         (w3, loc, Some e1) \<Rightarrow> Some (w3, Returns (None, Some e1))
                       | (w3, None, None) \<Rightarrow> Some (w3, Panics NilPointerDereference)
                       | (w3, Some fresh, None) \<Rightarrow>
                          (if \<not> Contains env fresh (Key (last locks))
                           then Some (w3, Returns (None, None))
                           else batchResolveLocksInARegion env w3 bo locks (Some fresh))))))))"

declare batchResolveLocksInARegion.simps [code]

text \<open>
  A round of that loop that goes on to the next one, from the world and location \<open>x\<close> to
  the world and location \<open>y\<close>: the resolver reports "not all resolved" with no error, the
  backoff lets the call go on, and the region located again for the first lock's key
  contains the last lock's key.
\<close>

definition resolveRound ::
  "('w, 'b, 'c) env \<Rightarrow> 'b \<Rightarrow> Lock list \<Rightarrow> 'w \<times> KeyLocation \<Rightarrow> 'w \<times> KeyLocation \<Rightarrow> bool"
where
  "resolveRound env b locks x y =
    (case BatchResolveLocks env (fst x) b locks (Region (snd x)) of
       (w1, ok, e) \<Rightarrow>
         \<not> ok \<and> e = None \<and>
         (case Backoff env w1 b BoTxnLock (RemainLocks (length locks)) of
            (w2, e2) \<Rightarrow>
              e2 = None \<and> locks \<noteq> [] \<and>
              LocateKey env w2 b (Key (hd locks)) = (fst y, Some (snd y), None) \<and>
              Contains env (snd y) (Key (last locks))))"

text \<open>The state of the sweep loop: the statistics, the current key and the backoffer.\<close>

record 'b sweep =
  cur_stat :: RangeTaskStat
  cur_key :: key
  cur_bo :: 'b

text \<open>
  The end of a completed iteration: leave the loop when the key is empty or has reached
  \<open>endKey\<close>, otherwise take a new backoffer for the next iteration.
\<close>

definition sweepAdvance ::
  "('w, 'b, 'c) env \<Rightarrow> 'c \<Rightarrow> key \<Rightarrow> 'w \<Rightarrow> 'b sweep \<Rightarrow>
   'w \<times> ('b sweep, (RangeTaskStat \<times> error option) result) step"
where
  "sweepAdvance env ctx endKey w st =
    (if length (cur_key st) = 0 \<or> (length endKey \<noteq> 0 \<and> bytes_Compare (cur_key st) endKey \<ge> 0)
     then (w, Done (Returns (cur_stat st, None)))
     else (case NewGcResolveLockMaxBackoffer env w ctx of
             (w', bo') \<Rightarrow> (w', Next (st\<lparr>cur_bo := bo'\<rparr>))))"

text \<open>One iteration of the loop of \<open>resolveLocksForRange\<close>.\<close>

definition sweepIteration ::
  "('w, 'b, 'c) env \<Rightarrow> 'c \<Rightarrow> 64 word \<Rightarrow> key \<Rightarrow> 'w \<Rightarrow> 'b sweep \<Rightarrow>
   ('w \<times> ('b sweep, (RangeTaskStat \<times> error option) result) step) option"
where
  "sweepIteration env ctx safePoint endKey w st =
    (if ctxDone env w ctx then Some (w, Done (Returns (cur_stat st, Some GcJobCanceled)))
     else
      (case scanLocksInRegionWithStartKey env w (cur_bo st) (cur_key st) safePoint (gcScanLockLimit env) of
         None \<Rightarrow> None
       | Some (w1, Panics p) \<Rightarrow> Some (w1, Done (Panics p))
       | Some (w1, Returns (locks, loc, Some e)) \<Rightarrow> Some (w1, Done (Returns (cur_stat st, Some e)))
       | Some (w1, Returns (locks, loc, None)) \<Rightarrow>
          (case batchResolveLocksInARegion env w1 (cur_bo st) locks loc of
             None \<Rightarrow> None
           | Some (w2, Panics p) \<Rightarrow> Some (w2, Done (Panics p))
           | Some (w2, Returns (rl, Some e1)) \<Rightarrow> Some (w2, Done (Returns (cur_stat st, Some e1)))
           | Some (w2, Returns (None, None)) \<Rightarrow> Some (w2, Next st)
           | Some (w2, Returns (Some resolved, None)) \<Rightarrow>
              (if length locks < gcScanLockLimit env
               then (case loc of
                       None \<Rightarrow> Some (w2, Done (Panics NilPointerDereference))
                     | Some l \<Rightarrow>
                         Some (sweepAdvance env ctx endKey w2
                           (st\<lparr>cur_stat := (cur_stat st)\<lparr>CompletedRegions := CompletedRegions (cur_stat st) + 1\<rparr>,
                               cur_key := EndKey l\<rparr>)))
               else (case locks of
                       [] \<Rightarrow> Some (w2, Done (Panics IndexOutOfRange))
                     | l0 # ls \<Rightarrow>
                         Some (sweepAdvance env ctx endKey w2 (st\<lparr>cur_key := Key (last locks)\<rparr>)))))))"

partial_function (option) sweepLoop ::
  "('w, 'b, 'c) env \<Rightarrow> 'c \<Rightarrow> 64 word \<Rightarrow> key \<Rightarrow> 'w \<Rightarrow> 'b sweep \<Rightarrow>
   ('w \<times> (RangeTaskStat \<times> error option) result) option"
where
  "sweepLoop env ctx safePoint endKey w st =
    (case sweepIteration env ctx safePoint endKey w st of
       None \<Rightarrow> None
     | Some (w', Done r) \<Rightarrow> Some (w', r)
     | Some (w', Next st') \<Rightarrow> sweepLoop env ctx safePoint endKey w' st')"

declare sweepLoop.simps [code]

definition resolveLocksForRange ::
  "('w, 'b, 'c) env \<Rightarrow> 'w \<Rightarrow> 'c \<Rightarrow> 64 word \<Rightarrow> key \<Rightarrow> key \<Rightarrow>
   ('w \<times> (RangeTaskStat \<times> error option) result) option"
where
  "resolveLocksForRange env w ctx safePoint startKey endKey =
    (case NewGcResolveLockMaxBackoffer env w ctx of
       (w0, bo0) \<Rightarrow>
         sweepLoop env ctx safePoint endKey w0
           \<lparr>cur_stat = \<lparr>CompletedRegions = 0, FailedRegions = 0\<rparr>, cur_key = startKey, cur_bo = bo0\<rparr>)"

text \<open>
  \<open>resolveLocks\<close> runs the sweep over the whole key space through the range task runner,
  and \<open>GC\<close> updates the safe point after it. \<open>newSafePoint\<close> is a named result: when the
  sweep fails, \<open>GC\<close> returns its zero value.
\<close>

definition resolveLocks ::
  "('w, 'b, 'c) env \<Rightarrow> 'w \<Rightarrow> 'c \<Rightarrow> 64 word \<Rightarrow> nat \<Rightarrow> ('w \<times> error option result) option"
where
  "resolveLocks env w ctx safePoint concurrency =
    RunOnRange env
      (\<lambda>w' ctx' r. resolveLocksForRange env w' ctx' safePoint (fst r) (snd r))
      concurrency w ctx [] []"

definition GC ::
  "('w, 'b, 'c) env \<Rightarrow> 'w \<Rightarrow> 'c \<Rightarrow> 64 word \<Rightarrow> ('w \<times> (64 word \<times> error option) result) option"
where
  "GC env w ctx safepoint =
    (case resolveLocks env w ctx safepoint 8 of
       None \<Rightarrow> None
     | Some (w1, Panics p) \<Rightarrow> Some (w1, Panics p)
     | Some (w1, Returns (Some e)) \<Rightarrow> Some (w1, Returns (0, Some e))
     | Some (w1, Returns None) \<Rightarrow>
        (case UpdateGCSafePoint env w1 ctx safepoint of
           (w2, newSafePoint, e) \<Rightarrow> Some (w2, Returns (newSafePoint, e))))"

section \<open>Region scatter coordinator\<close>

text \<open>
  The loop of \<open>scatterRegion\<close>: ask the placement service to scatter the region, back
  off and ask again on an error, until it succeeds or the backoff fails.
\<close>

partial_function (option) scatterRegionLoop ::
  "('w, 'b, 'c) env \<Rightarrow> 'w \<Rightarrow> 'b \<Rightarrow> 64 word \<Rightarrow> 64 word option \<Rightarrow> ('w \<times> error option) option"
where
  "scatterRegionLoop env w bo rid tableID =
    (case ScatterRegions env w (GetCtx env bo) [rid]
            (case tableID of None \<Rightarrow> [] | Some t \<Rightarrow> [WithGroup t]) of
       (w1, e) \<Rightarrow>
        (case (if EvalFailpoint env ''mockScatterRegionTimeout'' = Some True
               then Some ErrPDServerTimeout else e) of
           None \<Rightarrow> Some (w1, None)
         | Some e1 \<Rightarrow>
            (case Backoff env w1 bo BoPDRPC (ErrorText e1) of
               (w2, Some e2) \<Rightarrow> Some (w2, Some e2)
             | (w2, None) \<Rightarrow> scatterRegionLoop env w2 bo rid tableID)))"

declare scatterRegionLoop.simps [code]

text \<open>
  The state of the split orchestrator: the world, and the scatter requests made so far, one
  entry for each call of \<open>scatterRegion\<close> (where the source logs "start scatter region").
\<close>

record 'w state =
  world :: 'w
  scatterRequests :: "64 word list"

definition scatterRegion ::
  "('w, 'b, 'c) env \<Rightarrow> 'w state \<Rightarrow> 'b \<Rightarrow> 64 word \<Rightarrow> 64 word option \<Rightarrow>
   ('w state \<times> error option) option"
where
  "scatterRegion env s bo rid tableID =
    (case scatterRegionLoop env (world s) bo rid tableID of
       None \<Rightarrow> None
     | Some (w', e) \<Rightarrow>
         Some (s\<lparr>world := w', scatterRequests := scatterRequests s @ [rid]\<rparr>, e))"

definition scatter_region :: "8 word list" where
  "scatter_region = [115, 99, 97, 116, 116, 101, 114, 45, 114, 101, 103, 105, 111, 110]"

definition waitScatterRegionFinishBackoff :: int where
  "waitScatterRegionFinishBackoff = 120000"

text \<open>The polling loop of \<open>WaitScatterRegionFinish\<close>; \<open>logFreq\<close> only paces a log line.\<close>

partial_function (option) waitScatterLoop ::
  "('w, 'b, 'c) env \<Rightarrow> 'w \<Rightarrow> 'c \<Rightarrow> 'b \<Rightarrow> 64 word \<Rightarrow> nat \<Rightarrow> ('w \<times> error option) option"
where
  "waitScatterLoop env w ctx bo rid logFreq =
    (case GetOperator env w ctx rid of
       (w1, Some op, None) \<Rightarrow>
        (if Desc op \<noteq> scatter_region \<or> Status op \<noteq> RUNNING then Some (w1, None)
         else
          (case HeaderError op of
             Some h \<Rightarrow> Some (w1, Some (PDError h))
           | None \<Rightarrow>
              (case Backoff env w1 bo BoRegionMiss WaitScatterRegionTimeout of
                 (w2, Some e2) \<Rightarrow> Some (w2, Some e2)
               | (w2, None) \<Rightarrow> waitScatterLoop env w2 ctx bo rid (logFreq + 1))))
     | (w1, None, None) \<Rightarrow>
        (case Backoff env w1 bo BoRegionMiss WaitScatterRegionTimeout of
           (w2, Some e2) \<Rightarrow> Some (w2, Some e2)
         | (w2, None) \<Rightarrow> waitScatterLoop env w2 ctx bo rid logFreq)
     | (w1, op, Some e) \<Rightarrow>
        (case Backoff env w1 bo BoRegionMiss (ErrorText e) of
           (w2, Some e2) \<Rightarrow> Some (w2, Some e2)
         | (w2, None) \<Rightarrow> waitScatterLoop env w2 ctx bo rid logFreq))"

declare waitScatterLoop.simps [code]

text \<open>
  A round of the polling loop that goes on to the next one, from the world and log counter
  \<open>x\<close> to \<open>y\<close>: the poll fails, or returns nothing, or returns a running scatter operator
  with no error in its header, and the backoff lets the call go on.
\<close>

definition waitRound ::
  "('w, 'b, 'c) env \<Rightarrow> 'c \<Rightarrow> 'b \<Rightarrow> 64 word \<Rightarrow> 'w \<times> nat \<Rightarrow> 'w \<times> nat \<Rightarrow> bool"
where
  "waitRound env ctx b rid x y =
    (case GetOperator env (fst x) ctx rid of
       (w1, Some op, None) \<Rightarrow>
         Desc op = scatter_region \<and> Status op = RUNNING \<and> HeaderError op = None \<and>
         Backoff env w1 b BoRegionMiss WaitScatterRegionTimeout = (fst y, None) \<and>
         snd y = snd x + 1
     | (w1, None, None) \<Rightarrow>
         Backoff env w1 b BoRegionMiss WaitScatterRegionTimeout = (fst y, None) \<and> snd y = snd x
     | (w1, op, Some e) \<Rightarrow>
         Backoff env w1 b BoRegionMiss (ErrorText e) = (fst y, None) \<and> snd y = snd x)"

definition WaitScatterRegionFinish ::
  "('w, 'b, 'c) env \<Rightarrow> 'w \<Rightarrow> 'c \<Rightarrow> 64 word \<Rightarrow> int \<Rightarrow> ('w \<times> error option) option"
where
  "WaitScatterRegionFinish env w ctx rid backOff =
    (case NewBackofferWithVars env w ctx
            (if backOff \<le> 0 then waitScatterRegionFinishBackoff else backOff) of
       (w0, bo) \<Rightarrow> waitScatterLoop env w0 ctx bo rid 0)"





section \<open>Region split batch orchestrator\<close>

definition splitBatchRegionLimit :: nat where
  "splitBatchRegionLimit = 16"

definition equalRegionStartKey :: "key \<Rightarrow> key \<Rightarrow> bool" where
  "equalRegionStartKey k regionStartKey = (k = regionStartKey)"

definition splitRegionBackoff :: int where
  "splitRegionBackoff = 20000"

definition maxSplitRegionsBackoff :: int where
  "maxSplitRegionsBackoff = 120000"

text \<open>The batches of all groups, in the order in which the map of groups is ranged over.\<close>

definition buildBatches ::
  "('w, 'b, 'c) env \<Rightarrow> (RegionVerID \<times> key list) list \<Rightarrow> batch list"
where
  "buildBatches env groups =
    foldl (\<lambda>batches (rid, groupKeys).
             appendKeyBatches env batches rid groupKeys splitBatchRegionLimit) [] groups"

text \<open>
  The scatter loop of \<open>batchSendSingleRegion\<close> over the regions left in the response, from
  index \<open>i\<close> on. Each round calls \<open>scatterRegion\<close> and then logs with \<open>batch.keys[i]\<close>,
  which panics when the batch has no such key. The first error is kept in \<open>batchResp.err\<close>;
  a placement service timeout ends the loop.
\<close>

fun scatterLoop ::
  "('w, 'b, 'c) env \<Rightarrow> 'w state \<Rightarrow> 'b \<Rightarrow> batch \<Rightarrow> 64 word option \<Rightarrow> nat \<Rightarrow>
   metapb_Region list \<Rightarrow> singleBatchResp \<Rightarrow> ('w state \<times> singleBatchResp result) option"
where
  "scatterLoop env s bo b tableID i [] batchResp = Some (s, Returns batchResp)"
| "scatterLoop env s bo b tableID i (r # rs) batchResp =
    (case scatterRegion env s bo (Id r) tableID of
       None \<Rightarrow> None
     | Some (s1, e) \<Rightarrow>
        (if \<not> i < length (keys b) then Some (s1, Panics IndexOutOfRange)
         else
          (case e of
             None \<Rightarrow> scatterLoop env s1 bo b tableID (i + 1) rs batchResp
           | Some e1 \<Rightarrow>
              (if e1 = ErrPDServerTimeout
               then Some (s1, Returns (if err batchResp = None
                                       then batchResp\<lparr>err := Some e1\<rparr> else batchResp))
               else scatterLoop env s1 bo b tableID (i + 1) rs
                      (if err batchResp = None
                       then batchResp\<lparr>err := Some e1\<rparr> else batchResp)))))"

text \<open>
  \<open>batchSendSingleRegion\<close> after a response without a region error: assert the split
  response, drop its last region in place, and scatter the others if asked to. \<open>resp\<close> and
  \<open>batchResp.resp\<close> are the same pointer and \<open>spResp\<close> is the body it points to, so the
  assignment to \<open>spResp.Regions\<close> is seen through \<open>batchResp.resp\<close>: the result carries the
  shortened response.
\<close>

definition splitDone ::
  "('w, 'b, 'c) env \<Rightarrow> 'w state \<Rightarrow> 'b \<Rightarrow> batch \<Rightarrow> bool \<Rightarrow> 64 word option \<Rightarrow> Response \<Rightarrow>
   ('w state \<times> singleBatchResp result) option"
where
  "splitDone env s bo b scatter tableID r =
    (case Resp r of
       Some (SplitRegionResponse regions) \<Rightarrow>
        (case (if length regions > 0 then butlast regions else regions) of
           kept \<Rightarrow>
            (if keys b = [] then Some (s, Panics IndexOutOfRange)
             else if \<not> scatter
             then Some (s, Returns \<lparr>resp = Some (r\<lparr>Resp := Some (SplitRegionResponse kept)\<rparr>),
                                     err = None\<rparr>)
             else scatterLoop env s bo b tableID 0 kept
                    \<lparr>resp = Some (r\<lparr>Resp := Some (SplitRegionResponse kept)\<rparr>), err = None\<rparr>))
     | _ \<Rightarrow> Some (s, Panics InterfaceConversion))"

text \<open>
  One goroutine of the fan-out: fork the backoffer, run \<open>send\<close> on the batch, and put on
  the channel its result, or the context's error when the context is done and \<open>select\<close>
  takes that case, or the recovered panic. \<open>cancel\<close> is deferred to the end.

  Modelled from the spec: \<open>util.WithRecovery\<close> is not part of this code; by the spec a
  fault inside one batch's task is captured and made that task's error result.
\<close>

definition runTask ::
  "('w state \<Rightarrow> 'b \<Rightarrow> batch \<Rightarrow> ('w state \<times> singleBatchResp result) option) \<Rightarrow>
   ('w, 'b, 'c) env \<Rightarrow> 'w state \<Rightarrow> 'b \<Rightarrow> batch \<Rightarrow> ('w state \<times> singleBatchResp) option"
where
  "runTask send env s bo b =
    (case Fork env (world s) bo of
       (w1, backoffer) \<Rightarrow>
        (case send (s\<lparr>world := w1\<rparr>) backoffer b of
           None \<Rightarrow> None
         | Some (s2, Panics p) \<Rightarrow>
             Some (s2\<lparr>world := cancelFork env (world s2) backoffer\<rparr>,
                   \<lparr>resp = None, err = Some (RecoveredPanic p)\<rparr>)
         | Some (s2, Returns batchResp) \<Rightarrow>
             Some (s2\<lparr>world := cancelFork env (world s2) backoffer\<rparr>,
                   if ctxDone env (world s2) (GetCtx env bo) \<and> pickDone env (world s2)
                   then \<lparr>resp = None, err = Some (ctxErr env (world s2) (GetCtx env bo))\<rparr>
                   else batchResp)))"

text \<open>The goroutines' results, in the order in which they reach the channel.\<close>

fun runTasks ::
  "('w state \<Rightarrow> 'b \<Rightarrow> batch \<Rightarrow> ('w state \<times> singleBatchResp result) option) \<Rightarrow>
   ('w, 'b, 'c) env \<Rightarrow> 'w state \<Rightarrow> 'b \<Rightarrow> batch list \<Rightarrow>
   ('w state \<times> singleBatchResp list) option"
where
  "runTasks send env s bo [] = Some (s, [])"
| "runTasks send env s bo (b # bs) =
    (case runTask send env s bo b of
       None \<Rightarrow> None
     | Some (s1, r) \<Rightarrow>
        (case runTasks send env s1 bo bs of
           None \<Rightarrow> None
         | Some (s2, rs) \<Rightarrow> Some (s2, r # rs)))"

text \<open>
  The receiving loop of \<open>splitBatchRegionsReq\<close>: keep the first error, and append the
  regions of every result that carries a response. The type assertion panics on a response
  whose body is not a split response.
\<close>

fun mergeBatchResps ::
  "singleBatchResp list \<Rightarrow> metapb_Region list \<Rightarrow> error option \<Rightarrow>
   (metapb_Region list \<times> error option) result"
where
  "mergeBatchResps [] regions e = Returns (regions, e)"
| "mergeBatchResps (batchResp # rest) regions e =
    (case resp batchResp of
       None \<Rightarrow>
         mergeBatchResps rest regions (if err batchResp \<noteq> None \<and> e = None then err batchResp else e)
     | Some r \<Rightarrow>
        (case Resp r of
           Some (SplitRegionResponse rs) \<Rightarrow>
             mergeBatchResps rest (regions @ rs)
               (if err batchResp \<noteq> None \<and> e = None then err batchResp else e)
         | _ \<Rightarrow> Panics InterfaceConversion))"

text \<open>
  The failpoint at the head of \<open>batchSendSingleRegion\<close>: when it is on and the context
  has a deadline, wait until the context is done.
\<close>

definition mockSplitRegionTimeout :: "('w, 'b, 'c) env \<Rightarrow> 'w \<Rightarrow> 'b \<Rightarrow> 'w" where
  "mockSplitRegionTimeout env w bo =
    (if EvalFailpoint env ''mockSplitRegionTimeout'' = Some True \<and> hasDeadline env (GetCtx env bo)
     then awaitDone env w (GetCtx env bo) else w)"

text \<open>
  \<open>splitBatchRegionsReq\<close> and \<open>batchSendSingleRegion\<close> call each other: a batch that
  meets a region error backs off and groups its keys again. Nothing bounds the depth of
  this retry but the backoff, so the first argument is fuel, one unit for each level;
  \<open>None\<close> is running out of it, or a loop that does not return.
\<close>

fun splitBatchRegionsReq ::
  "nat \<Rightarrow> ('w, 'b, 'c) env \<Rightarrow> 'w state \<Rightarrow> 'b \<Rightarrow> key list \<Rightarrow> bool \<Rightarrow> 64 word option \<Rightarrow>
   ('w state \<times> (Response option \<times> error option) result) option"
and batchSendSingleRegion ::
  "nat \<Rightarrow> ('w, 'b, 'c) env \<Rightarrow> 'w state \<Rightarrow> 'b \<Rightarrow> batch \<Rightarrow> bool \<Rightarrow> 64 word option \<Rightarrow>
   ('w state \<times> singleBatchResp result) option"
where
  "splitBatchRegionsReq 0 env s bo ks scatter tableID = None"
| "splitBatchRegionsReq (Suc n) env s bo ks scatter tableID =
    (case GroupKeysByRegion env (world s) bo ks equalRegionStartKey of
       (w1, groups, Some e) \<Rightarrow> Some (s\<lparr>world := w1\<rparr>, Returns (None, Some e))
     | (w1, groups, None) \<Rightarrow>
        (case buildBatches env groups of
           [] \<Rightarrow> Some (s\<lparr>world := w1\<rparr>, Returns (None, None))
         | b0 # bs \<Rightarrow>
            (if GetTotalSleep env w1 bo = 0 \<and> keys b0 = []
             then Some (s\<lparr>world := w1\<rparr>, Panics IndexOutOfRange)
             else if bs = [] then
              (case batchSendSingleRegion n env (s\<lparr>world := w1\<rparr>) bo b0 scatter tableID of
                 None \<Rightarrow> None
               | Some (s2, Panics p) \<Rightarrow> Some (s2, Panics p)
               | Some (s2, Returns batchResp) \<Rightarrow>
                   Some (s2, Returns (resp batchResp, err batchResp)))
             else
              (case runTasks (\<lambda>s' bo' b. batchSendSingleRegion n env s' bo' b scatter tableID)
                      env (s\<lparr>world := w1\<rparr>) bo (arrival env w1 (b0 # bs)) of
                 None \<Rightarrow> None
               | Some (s2, batchResps) \<Rightarrow>
                  (case mergeBatchResps batchResps [] None of
                     Panics p \<Rightarrow> Some (s2, Panics p)
                   | Returns (regions, e) \<Rightarrow>
                       Some (s2, Returns (Some \<lparr>Resp = Some (SplitRegionResponse regions)\<rparr>, e)))))))"
| "batchSendSingleRegion n env s bo b scatter tableID =
    (case mockSplitRegionTimeout env (world s) bo of
       w0 \<Rightarrow>
        (case SendReq env w0 bo (CmdSplitRegion (keys b)) (batchRegionID b) ReadTimeoutShort of
           (w1, r, Some e) \<Rightarrow> Some (s\<lparr>world := w1\<rparr>, Returns \<lparr>resp = r, err = Some e\<rparr>)
         | (w1, None, None) \<Rightarrow> Some (s\<lparr>world := w1\<rparr>, Panics NilPointerDereference)
         | (w1, Some r, None) \<Rightarrow>
            (case GetRegionError env r of
               (regionErr, Some e) \<Rightarrow>
                 Some (s\<lparr>world := w1\<rparr>, Returns \<lparr>resp = Some r, err = Some e\<rparr>)
             | (Some regionErr, None) \<Rightarrow>
                (case Backoff env w1 bo BoRegionMiss (RegionErrorText regionErr) of
                   (w2, Some e) \<Rightarrow>
                     Some (s\<lparr>world := w2\<rparr>, Returns \<lparr>resp = Some r, err = Some e\<rparr>)
                 | (w2, None) \<Rightarrow>
                    (case splitBatchRegionsReq n env (s\<lparr>world := w2\<rparr>) bo (keys b) scatter tableID of
                       None \<Rightarrow> None
                     | Some (s3, Panics p) \<Rightarrow> Some (s3, Panics p)
                     | Some (s3, Returns (r', e')) \<Rightarrow>
                         Some (s3, Returns \<lparr>resp = r', err = e'\<rparr>)))
             | (None, None) \<Rightarrow> splitDone env (s\<lparr>world := w1\<rparr>) bo b scatter tableID r)))"

text \<open>
  \<open>SplitRegions\<close>: the backoff budget grows with the number of split keys up to a
  ceiling; the ids of the regions in the response are returned with the error.
\<close>

definition SplitRegions ::
  "nat \<Rightarrow> ('w, 'b, 'c) env \<Rightarrow> 'w state \<Rightarrow> 'c \<Rightarrow> key list \<Rightarrow> bool \<Rightarrow> 64 word option \<Rightarrow>
   ('w state \<times> (64 word list \<times> error option) result) option"
where
  "SplitRegions fuel env s ctx splitKeys scatter tableID =
    (case NewBackofferWithVars env (world s) ctx
            (min (int (length splitKeys) * splitRegionBackoff) maxSplitRegionsBackoff) of
       (w0, bo) \<Rightarrow>
        (case splitBatchRegionsReq fuel env (s\<lparr>world := w0\<rparr>) bo splitKeys scatter tableID of
           None \<Rightarrow> None
         | Some (s1, Panics p) \<Rightarrow> Some (s1, Panics p)
         | Some (s1, Returns (None, e)) \<Rightarrow> Some (s1, Returns ([], e))
         | Some (s1, Returns (Some r, e)) \<Rightarrow>
            (case Resp r of
               None \<Rightarrow> Some (s1, Returns ([], e))
             | Some (SplitRegionResponse regions) \<Rightarrow> Some (s1, Returns (map Id regions, e))
             | Some _ \<Rightarrow> Some (s1, Panics InterfaceConversion))))"

section \<open>Pre-split heuristic\<close>

text \<open>
  The loop of \<open>preSplitRegion\<close> over the indices of the mutations. The sizes are Go
  \<open>int\<close>s; a sum of lengths of slices in memory stays far below \<open>2 ^ 63\<close>, so they are
  natural numbers here.
\<close>

function preSplitLoop ::
  "nat \<Rightarrow> (key \<times> 8 word list) list \<Rightarrow> nat \<Rightarrow> nat \<Rightarrow> key list \<Rightarrow> key list"
where
  "preSplitLoop threshold ms i regionSize splitKeys =
    (if i < length ms
     then (if regionSize + length (fst (ms ! i)) + length (snd (ms ! i)) \<ge> threshold
           then preSplitLoop threshold ms (i + 1) 0 (splitKeys @ [fst (ms ! i)])
           else preSplitLoop threshold ms (i + 1)
                  (regionSize + length (fst (ms ! i)) + length (snd (ms ! i))) splitKeys)
     else splitKeys)"
  by pat_completeness auto
termination
  by (relation "measure (\<lambda>(threshold, ms, i, regionSize, splitKeys). length ms - i)") auto

declare preSplitLoop.simps [simp del]

text \<open>Waiting for the scatter of each new region; an error is logged and dropped.\<close>

fun waitAll ::
  "('w, 'b, 'c) env \<Rightarrow> 'w \<Rightarrow> 'c \<Rightarrow> 64 word list \<Rightarrow> 'w option"
where
  "waitAll env w ctx [] = Some w"
| "waitAll env w ctx (rid # rids) =
    (case WaitScatterRegionFinish env w ctx rid 0 of
       None \<Rightarrow> None
     | Some (w1, e) \<Rightarrow> waitAll env w1 ctx rids)"

text \<open>
  \<open>preSplitRegion\<close> after its loop, on the split keys the loop has found: nothing is done
  when there is none; otherwise split with scatter, wait for each new region, and
  invalidate the cached region of the group.
\<close>

definition preSplitWithKeys ::
  "nat \<Rightarrow> ('w, 'b, 'c) env \<Rightarrow> 'w state \<Rightarrow> 'c \<Rightarrow> groupedMutations \<Rightarrow> key list \<Rightarrow>
   ('w state \<times> bool result) option"
where
  "preSplitWithKeys fuel env s ctx g splitKeys =
    (if length splitKeys = 0 then Some (s, Returns False)
     else
      (case SplitRegions fuel env s ctx splitKeys True None of
         None \<Rightarrow> None
       | Some (s1, Panics p) \<Rightarrow> Some (s1, Panics p)
       | Some (s1, Returns (regionIDs, Some e)) \<Rightarrow> Some (s1, Returns False)
       | Some (s1, Returns (regionIDs, None)) \<Rightarrow>
          (case waitAll env (world s1) ctx regionIDs of
             None \<Rightarrow> None
           | Some w2 \<Rightarrow>
               Some (s1\<lparr>world := InvalidateCachedRegion env w2 (region g)\<rparr>, Returns True))))"

definition preSplitRegion ::
  "nat \<Rightarrow> ('w, 'b, 'c) env \<Rightarrow> 'w state \<Rightarrow> 'c \<Rightarrow> groupedMutations \<Rightarrow>
   ('w state \<times> bool result) option"
where
  "preSplitRegion fuel env s ctx g =
    preSplitWithKeys fuel env s ctx g
      (preSplitLoop (unat (preSplitSizeThreshold env)) (mutations g) 0 0 [])"

text \<open>
  The spec's words for the split points: walk the keys and values in order, accumulate
  \<open>len(key) + len(value)\<close>; when the accumulator reaches the threshold, mark the key and
  reset the accumulator.
\<close>

fun spec_splitPoints :: "nat \<Rightarrow> nat \<Rightarrow> (key \<times> 8 word list) list \<Rightarrow> key list" where
  "spec_splitPoints threshold acc [] = []"
| "spec_splitPoints threshold acc ((k, v) # ms) =
    (if acc + length k + length v \<ge> threshold
     then k # spec_splitPoints threshold 0 ms
     else spec_splitPoints threshold (acc + length k + length v) ms)"

section \<open>Concrete environments\<close>

text \<open>
  A small world to run the functions in: each backoffer is an index into \<open>sleeps\<close>, the
  number of times it has backed off, and the placement service keeps a safe point. In
  \<open>quiet\<close> nothing fails: every key lies in one unbounded region, scans find no lock, and
  the range task runner calls its handler once on the whole range.
\<close>

record cworld =
  sleeps :: "nat list"
  pdSafePoint :: "64 word"

definition newBackoffer :: "cworld \<Rightarrow> cworld \<times> nat" where
  "newBackoffer w = (w\<lparr>sleeps := sleeps w @ [0]\<rparr>, length (sleeps w))"

definition region1 :: RegionVerID where
  "region1 = \<lparr>regionID = 1, confVer = 1, ver = 1\<rparr>"

definition region2 :: RegionVerID where
  "region2 = \<lparr>regionID = 2, confVer = 1, ver = 1\<rparr>"

definition quiet :: "(cworld, nat, unit) env" where
  "quiet =
    \<lparr>ctxDone = (\<lambda>w c. False),
     ctxErr = (\<lambda>w c. External 0),
     Background = (),
     GetCtx = (\<lambda>b. ()),
     NewGcResolveLockMaxBackoffer = (\<lambda>w c. newBackoffer w),
     NewBackofferWithVars = (\<lambda>w c n. newBackoffer w),
     Fork = (\<lambda>w b. newBackoffer w),
     cancelFork = (\<lambda>w b. w),
     Backoff = (\<lambda>w b cfg e. (w\<lparr>sleeps := (sleeps w)[b := Suc (sleeps w ! b)]\<rparr>, None)),
     LocateKey = (\<lambda>w b k. (w, Some \<lparr>Region = region1, StartKey = [], EndKey = []\<rparr>, None)),
     Contains = (\<lambda>l k. bytes_Compare (StartKey l) k \<le> 0
                         \<and> (bytes_Compare k (EndKey l) < 0 \<or> length (EndKey l) = 0)),
     SendReq = (\<lambda>w b req rid t.
                  (w, Some \<lparr>Resp = Some (case req of
                                            CmdScanLock v n a z \<Rightarrow> ScanLockResponse None []
                                          | CmdSplitRegion ks \<Rightarrow> SplitRegionResponse [])\<rparr>, None)),
     GetRegionError = (\<lambda>r. case Resp r of None \<Rightarrow> (None, Some ErrBodyMissing)
                                        | Some b \<Rightarrow> (None, None)),
     NewLock = (\<lambda>li. \<lparr>Key = LockKey li, Primary = PrimaryLock li, TxnID = LockVersion li\<rparr>),
     BatchResolveLocks = (\<lambda>w b ls r. (w, True, None)),
     ResolvedCacheSize = 4,
     RunOnRange = (\<lambda>handler k w c a z.
                     case handler w c (a, z) of
                       None \<Rightarrow> None
                     | Some (w', Panics p) \<Rightarrow> Some (w', Panics p)
                     | Some (w', Returns (st, e)) \<Rightarrow> Some (w', Returns e)),
     UpdateGCSafePoint = (\<lambda>w c sp. (w\<lparr>pdSafePoint := max (pdSafePoint w) sp\<rparr>,
                                     max (pdSafePoint w) sp, None)),
     GroupKeysByRegion = (\<lambda>w b ks f. (w, [], None)),
     appendKeyBatches = (\<lambda>bs rid ks n.
                           if ks = [] then bs else bs @ [\<lparr>batchRegionID = rid, keys = ks\<rparr>]),
     GetTotalSleep = (\<lambda>w b. int (sleeps w ! b)),
     EvalFailpoint = (\<lambda>n. None),
     hasDeadline = (\<lambda>c. False),
     awaitDone = (\<lambda>w c. w),
     arrival = (\<lambda>w bs. bs),
     pickDone = (\<lambda>w. False),
     ScatterRegions = (\<lambda>w c ids opts. (w, None)),
     GetOperator = (\<lambda>w c rid. (w, Some \<lparr>HeaderError = None, Desc = [], Status = SUCCESS\<rparr>, None)),
     InvalidateCachedRegion = (\<lambda>w r. w),
     locateRegionMaxBackoff = 20000,
     preSplitSizeThreshold = 4\<rparr>"

definition world0 :: cworld where
  "world0 = \<lparr>sleeps = [0], pdSafePoint = 0\<rparr>"

definition sweep0 :: "nat sweep" where
  "sweep0 = \<lparr>cur_stat = \<lparr>CompletedRegions = 0, FailedRegions = 0\<rparr>, cur_key = [1], cur_bo = 0\<rparr>"

definition lock7 :: LockInfo where
  "lock7 = \<lparr>LockKey = [7], PrimaryLock = [7], LockVersion = 50\<rparr>"

definition lock8 :: LockInfo where
  "lock8 = \<lparr>LockKey = [8], PrimaryLock = [7], LockVersion = 60\<rparr>"

text \<open>
  \<open>oneLock\<close>: the region of every key ends at key 9 and a scan finds one lock, fewer than
  the limit of 2. \<open>twoLocks\<close>: a scan finds two locks, a full page.
\<close>

definition oneLock :: "(cworld, nat, unit) env" where
  "oneLock = quiet
    \<lparr>LocateKey := (\<lambda>w b k. (w, Some \<lparr>Region = region1, StartKey = [], EndKey = [9]\<rparr>, None)),
     SendReq := (\<lambda>w b req rid t. (w, Some \<lparr>Resp = Some (ScanLockResponse None [lock7])\<rparr>, None))\<rparr>"

definition twoLocks :: "(cworld, nat, unit) env" where
  "twoLocks = quiet
    \<lparr>LocateKey := (\<lambda>w b k. (w, Some \<lparr>Region = region1, StartKey = [], EndKey = [9]\<rparr>, None)),
     SendReq := (\<lambda>w b req rid t.
                   (w, Some \<lparr>Resp = Some (ScanLockResponse None [lock7, lock8])\<rparr>, None))\<rparr>"

text \<open>
  \<open>moved\<close>: the resolver reports "not all resolved" with no error, and the region found
  again for the first lock's key ends at key 8, before the last lock.
\<close>

definition moved :: "(cworld, nat, unit) env" where
  "moved = twoLocks
    \<lparr>BatchResolveLocks := (\<lambda>w b ls r. (w, False, None)),
     LocateKey := (\<lambda>w b k. (w, Some \<lparr>Region = region2, StartKey = [], EndKey = [8]\<rparr>, None))\<rparr>"

text \<open>\<open>canceled\<close>: the context is done before the sweep starts.\<close>

definition canceled :: "(cworld, nat, unit) env" where
  "canceled = quiet\<lparr>ctxDone := (\<lambda>w c. True)\<rparr>"

definition loc9 :: KeyLocation where
  "loc9 = \<lparr>Region = region1, StartKey = [], EndKey = [9]\<rparr>"

definition lk7 :: Lock where
  "lk7 = \<lparr>Key = [7], Primary = [7], TxnID = 50\<rparr>"

definition lk8 :: Lock where
  "lk8 = \<lparr>Key = [8], Primary = [7], TxnID = 60\<rparr>"

text \<open>
  For the scatter coordinator: an operator whose header carries an error while it is not a
  running scatter operator (\<open>headerErrIdle\<close>) or while it is one (\<open>headerErrRunning\<close>), a
  running scatter operator (\<open>running\<close>), and a poll that fails while the backoff gives up
  (\<open>pollFails\<close>).
\<close>

definition headerErrIdle :: "(cworld, nat, unit) env" where
  "headerErrIdle = quiet
    \<lparr>GetOperator := (\<lambda>w c rid. (w, Some \<lparr>HeaderError = Some 1, Desc = [], Status = SUCCESS\<rparr>, None))\<rparr>"

definition headerErrRunning :: "(cworld, nat, unit) env" where
  "headerErrRunning = quiet
    \<lparr>GetOperator := (\<lambda>w c rid.
        (w, Some \<lparr>HeaderError = Some 1, Desc = scatter_region, Status = RUNNING\<rparr>, None))\<rparr>"

definition running :: "(cworld, nat, unit) env" where
  "running = quiet
    \<lparr>GetOperator := (\<lambda>w c rid.
        (w, Some \<lparr>HeaderError = None, Desc = scatter_region, Status = RUNNING\<rparr>, None))\<rparr>"


definition world1 :: cworld where
  "world1 = \<lparr>sleeps = [0, 0], pdSafePoint = 0\<rparr>"

text \<open>
  \<open>movedLater\<close>: the resolver reports "not all resolved" until the backoffer has backed
  off twice, and the region found again for the first lock's key ends at key 9 after one
  backoff and at key 8, before the last lock, after two.
\<close>

definition movedLater :: "(cworld, nat, unit) env" where
  "movedLater = twoLocks
    \<lparr>BatchResolveLocks := (\<lambda>w b ls r. (w, 2 \<le> sleeps w ! b, None)),
     LocateKey := (\<lambda>w b k.
        (w, Some (if sleeps w ! b < 2 then loc9
                  else \<lparr>Region = region2, StartKey = [], EndKey = [8]\<rparr>), None))\<rparr>"

definition loc8 :: KeyLocation where
  "loc8 = \<lparr>Region = region2, StartKey = [], EndKey = [8]\<rparr>"

text \<open>\<open>updFails\<close>: the sweep finds nothing and the update of the safe point fails.\<close>

definition updFails :: "(cworld, nat, unit) env" where
  "updFails = quiet\<lparr>UpdateGCSafePoint := (\<lambda>w c sp. (w, 7, Some (External 9)))\<rparr>"

text \<open>
  \<open>flaky\<close>: the first poll of an operator fails and the backoff lets the caller go on;
  later polls answer as \<open>say\<close> tells. The worlds count the backoffs of backoffer 1, the
  one the callers make.
\<close>

definition flaky :: "GetOperatorResponse \<Rightarrow> (cworld, nat, unit) env" where
  "flaky say = quiet
    \<lparr>GetOperator := (\<lambda>w c rid.
        if sleeps w ! 1 = 0 then (w, None, Some (External 7)) else (w, Some say, None))\<rparr>"



definition failedRunningOp :: GetOperatorResponse where
  "failedRunningOp = \<lparr>HeaderError = Some 1, Desc = scatter_region, Status = RUNNING\<rparr>"

definition failedIdleOp :: GetOperatorResponse where
  "failedIdleOp = \<lparr>HeaderError = Some 1, Desc = [], Status = SUCCESS\<rparr>"


definition world2 :: cworld where
  "world2 = \<lparr>sleeps = [0, 1], pdSafePoint = 0\<rparr>"

text \<open>Mutation groups: one too small to split, one that reaches the threshold of 4 twice.\<close>

definition smallGroup :: groupedMutations where
  "smallGroup = \<lparr>region = region1, mutations = [([1], [2]), ([3], [])]\<rparr>"

definition bigGroup :: groupedMutations where
  "bigGroup = \<lparr>region = region1,
                mutations = [([1], [2]), ([3], [4]), ([5], []), ([6, 7], [8, 9]), ([10], [])]\<rparr>"

definition state0 :: "cworld state" where
  "state0 = \<lparr>world = world0, scatterRequests = []\<rparr>"

section \<open>Properties of the lock resolution sweep\<close>

lemma batchResolve_nil_location:
  "batchResolveLocksInARegion env w b locks None = Some (w, Panics NilPointerDereference)"
  by (simp add: batchResolveLocksInARegion.simps)

text \<open>
  C5. In an iteration of the sweep loop whose bulk resolution ends with a location,
  \<open>CompletedRegions\<close> is incremented exactly when the scan returned fewer locks than
  \<open>gcScanLockLimit = ResolvedCacheSize / 2\<close>; then the current key becomes the end key of
  the scanned region, and otherwise it becomes the key of the last lock returned and the
  statistics stay as they were. The iteration ends in \<open>sweepAdvance\<close> on that state.
  \<open>ResolvedCacheSize\<close> is declared outside this code; it is at least 2, so that a page
  that is not short holds a lock.
\<close>

theorem completed_regions_iff_short_page:
  assumes nd: "\<not> ctxDone env w ctx"
    and scan: "scanLocksInRegionWithStartKey env w (cur_bo st) (cur_key st) safePoint
                 (gcScanLockLimit env) = Some (w1, Returns (locks, loc, None))"
    and res: "batchResolveLocksInARegion env w1 (cur_bo st) locks loc
                 = Some (w2, Returns (Some resolved, None))"
    and lim: "2 \<le> ResolvedCacheSize env"
  shows "\<exists>l st'. loc = Some l \<and>
           sweepIteration env ctx safePoint endKey w st
             = Some (sweepAdvance env ctx endKey w2 st') \<and>
           cur_bo st' = cur_bo st \<and>
           FailedRegions (cur_stat st') = FailedRegions (cur_stat st) \<and>
           (CompletedRegions (cur_stat st') = CompletedRegions (cur_stat st) + 1
              \<longleftrightarrow> length locks < ResolvedCacheSize env div 2) \<and>
           (length locks < ResolvedCacheSize env div 2 \<longrightarrow> cur_key st' = EndKey l) \<and>
           (\<not> length locks < ResolvedCacheSize env div 2 \<longrightarrow>
              cur_key st' = Key (last locks) \<and> cur_stat st' = cur_stat st)"
proof -
  obtain l where l: "loc = Some l"
    using res by (cases loc) (simp_all add: batchResolve_nil_location)
  show ?thesis
  proof (cases "length locks < ResolvedCacheSize env div 2")
    case True
    let ?st = "st\<lparr>cur_stat := (cur_stat st)\<lparr>CompletedRegions := CompletedRegions (cur_stat st) + 1\<rparr>,
                   cur_key := EndKey l\<rparr>"
    have "sweepIteration env ctx safePoint endKey w st = Some (sweepAdvance env ctx endKey w2 ?st)"
      using nd scan res l True by (simp add: sweepIteration_def gcScanLockLimit_def)
    then show ?thesis using True l
      by (intro exI[of _ l] exI[of _ ?st]) simp
  next
    case False
    with lim have "locks \<noteq> []" by auto
    then obtain l0 ls where ne: "locks = l0 # ls" by (cases locks) auto
    let ?st = "st\<lparr>cur_key := Key (last locks)\<rparr>"
    have "sweepIteration env ctx safePoint endKey w st = Some (sweepAdvance env ctx endKey w2 ?st)"
      using nd scan res l False ne by (simp add: sweepIteration_def gcScanLockLimit_def)
    then show ?thesis using False l
      by (intro exI[of _ l] exI[of _ ?st]) simp
  qed
qed

lemma oneLock_scan:
  "scanLocksInRegionWithStartKey oneLock world0 (cur_bo sweep0) (cur_key sweep0) 100
     (gcScanLockLimit oneLock) = Some (world0, Returns ([lk7], Some loc9, None))"
  by (simp add: scanLocksInRegionWithStartKey.simps oneLock_def quiet_def lock7_def lk7_def
        loc9_def sweep0_def)

lemma oneLock_resolve:
  "batchResolveLocksInARegion oneLock world0 (cur_bo sweep0) [lk7] (Some loc9)
     = Some (world0, Returns (Some loc9, None))"
  by (simp add: batchResolveLocksInARegion.simps oneLock_def quiet_def)

theorem completed_regions_iff_short_page_witness:
  "\<not> ctxDone oneLock world0 () \<and> 2 \<le> ResolvedCacheSize oneLock \<and>
   (\<exists>l st'. Some loc9 = Some l \<and>
      sweepIteration oneLock () 100 [] world0 sweep0
        = Some (sweepAdvance oneLock () [] world0 st') \<and>
      CompletedRegions (cur_stat st') = 1 \<and> cur_key st' = [9])"
proof -
  have h1: "\<not> ctxDone oneLock world0 ()" by (simp add: oneLock_def quiet_def)
  have h4: "2 \<le> ResolvedCacheSize oneLock" by (simp add: oneLock_def quiet_def)
  have short: "length [lk7] < ResolvedCacheSize oneLock div 2"
    by (simp add: oneLock_def quiet_def)
  from completed_regions_iff_short_page [OF h1 oneLock_scan oneLock_resolve h4, of "[]"]
  obtain l st' where "Some loc9 = Some l"
    and "sweepIteration oneLock () 100 [] world0 sweep0 = Some (sweepAdvance oneLock () [] world0 st')"
    and "CompletedRegions (cur_stat st') = CompletedRegions (cur_stat sweep0) + 1
           \<longleftrightarrow> length [lk7] < ResolvedCacheSize oneLock div 2"
    and "length [lk7] < ResolvedCacheSize oneLock div 2 \<longrightarrow> cur_key st' = EndKey l"
    by blast
  with short have "Some loc9 = Some l \<and>
      sweepIteration oneLock () 100 [] world0 sweep0 = Some (sweepAdvance oneLock () [] world0 st') \<and>
      CompletedRegions (cur_stat st') = 1 \<and> cur_key st' = [9]"
    by (auto simp: sweep0_def loc9_def)
  with h1 h4 show ?thesis by blast
qed

lemma resolveRound_continues:
  assumes "resolveRound env b locks x y"
  shows "batchResolveLocksInARegion env (fst x) b locks (Some (snd x))
           = batchResolveLocksInARegion env (fst y) b locks (Some (snd y))"
proof -
  obtain w1 ok e where r: "BatchResolveLocks env (fst x) b locks (Region (snd x)) = (w1, ok, e)"
    by (cases "BatchResolveLocks env (fst x) b locks (Region (snd x))") auto
  obtain w2 e2 where k: "Backoff env w1 b BoTxnLock (RemainLocks (length locks)) = (w2, e2)"
    by (cases "Backoff env w1 b BoTxnLock (RemainLocks (length locks))") auto
  from assms r k have f: "\<not> ok" "e = None" "e2 = None" "locks \<noteq> []"
      and l: "LocateKey env w2 b (Key (hd locks)) = (fst y, Some (snd y), None)"
      and c: "Contains env (snd y) (Key (last locks))"
    by (simp_all add: resolveRound_def)
  from f obtain l0 ls where ne: "locks = l0 # ls" by (cases locks) auto
  show ?thesis
    using r k f l c unfolding ne
    by (subst batchResolveLocksInARegion.simps) simp
qed

lemma resolveRounds_continue:
  assumes "rtranclp (resolveRound env b locks) x y"
  shows "batchResolveLocksInARegion env (fst x) b locks (Some (snd x))
           = batchResolveLocksInARegion env (fst y) b locks (Some (snd y))"
  using assms
  by (induction rule: rtranclp_induct) (simp_all add: resolveRound_continues)

text \<open>
  C6. Take a call of \<open>batchResolveLocksInARegion\<close> that has come, after any number of
  rounds that went on, to a round in which the resolver reports "not all resolved" with no
  error, the backoff lets the call go on, and the region located again for the first
  lock's key does not contain the last lock's key: the call returns a nil location and a
  nil error. On that result the iteration of the sweep loop ends with the loop state as it
  was, the same key, the same statistics, the same backoffer, and the loop goes round again
  from it.
\<close>

theorem rescan_sentinel:
  "(rtranclp (resolveRound env b locks) (w, rl) (wk, rlk) \<and>
    BatchResolveLocks env wk b locks (Region rlk) = (w1, False, None) \<and>
    Backoff env w1 b BoTxnLock (RemainLocks (length locks)) = (w2, None) \<and>
    locks \<noteq> [] \<and>
    LocateKey env w2 b (Key (hd locks)) = (w3, Some fresh, None) \<and>
    \<not> Contains env fresh (Key (last locks))
    \<longrightarrow> batchResolveLocksInARegion env w b locks (Some rl) = Some (w3, Returns (None, None)))
   \<and>
   (\<not> ctxDone env v ctx \<and>
    scanLocksInRegionWithStartKey env v (cur_bo st) (cur_key st) safePoint (gcScanLockLimit env)
      = Some (v1, Returns (locks', loc, None)) \<and>
    batchResolveLocksInARegion env v1 (cur_bo st) locks' loc = Some (v2, Returns (None, None))
    \<longrightarrow> sweepIteration env ctx safePoint endKey v st = Some (v2, Next st) \<and>
        sweepLoop env ctx safePoint endKey v st = sweepLoop env ctx safePoint endKey v2 st)"
proof (intro conjI impI)
  assume h: "rtranclp (resolveRound env b locks) (w, rl) (wk, rlk) \<and>
    BatchResolveLocks env wk b locks (Region rlk) = (w1, False, None) \<and>
    Backoff env w1 b BoTxnLock (RemainLocks (length locks)) = (w2, None) \<and>
    locks \<noteq> [] \<and>
    LocateKey env w2 b (Key (hd locks)) = (w3, Some fresh, None) \<and>
    \<not> Contains env fresh (Key (last locks))"
  then obtain l0 ls where ne: "locks = l0 # ls" by (cases locks) auto
  have last: "batchResolveLocksInARegion env wk b locks (Some rlk) = Some (w3, Returns (None, None))"
    using h unfolding ne
    by (subst batchResolveLocksInARegion.simps) simp
  from h have "rtranclp (resolveRound env b locks) (w, rl) (wk, rlk)" by simp
  from resolveRounds_continue [OF this] last
  show "batchResolveLocksInARegion env w b locks (Some rl) = Some (w3, Returns (None, None))"
    by simp
next
  assume h: "\<not> ctxDone env v ctx \<and>
    scanLocksInRegionWithStartKey env v (cur_bo st) (cur_key st) safePoint (gcScanLockLimit env)
      = Some (v1, Returns (locks', loc, None)) \<and>
    batchResolveLocksInARegion env v1 (cur_bo st) locks' loc = Some (v2, Returns (None, None))"
  then show it: "sweepIteration env ctx safePoint endKey v st = Some (v2, Next st)"
    by (simp add: sweepIteration_def)
  show "sweepLoop env ctx safePoint endKey v st = sweepLoop env ctx safePoint endKey v2 st"
    by (subst sweepLoop.simps) (simp add: it)
qed

lemma moved_scan:
  "scanLocksInRegionWithStartKey moved world0 (cur_bo sweep0) (cur_key sweep0) 100
     (gcScanLockLimit moved)
   = Some (world0, Returns ([lk7, lk8], Some \<lparr>Region = region2, StartKey = [], EndKey = [8]\<rparr>, None))"
  by (simp add: scanLocksInRegionWithStartKey.simps moved_def twoLocks_def quiet_def lock7_def
        lock8_def lk7_def lk8_def sweep0_def)

lemma movedLater_scan:
  "scanLocksInRegionWithStartKey movedLater w (cur_bo sweep0) (cur_key sweep0) 100
     (gcScanLockLimit movedLater)
   = Some (w, Returns ([lk7, lk8], Some (if sleeps w ! 0 < 2 then loc9 else loc8), None))"
  by (simp add: scanLocksInRegionWithStartKey.simps movedLater_def twoLocks_def quiet_def
        lock7_def lock8_def lk7_def lk8_def sweep0_def loc8_def)

lemma movedLater_round:
  "resolveRound movedLater 0 [lk7, lk8] (world0, loc9) (world0\<lparr>sleeps := [1]\<rparr>, loc9)"
  by (simp add: resolveRound_def movedLater_def twoLocks_def quiet_def world0_def lk8_def
        loc9_def)

lemma movedLater_resolved:
  "batchResolveLocksInARegion movedLater (world0\<lparr>sleeps := [2]\<rparr>) 0 [lk7, lk8] (Some loc8)
     = Some (world0\<lparr>sleeps := [2]\<rparr>, Returns (Some loc8, None))"
  by (simp add: batchResolveLocksInARegion.simps movedLater_def twoLocks_def quiet_def
        world0_def)

lemma movedLater_finishes:
  "sweepLoop movedLater () 100 [8] (world0\<lparr>sleeps := [2]\<rparr>) sweep0
     = Some (world0\<lparr>sleeps := [2]\<rparr>,
             Returns (\<lparr>CompletedRegions = 0, FailedRegions = 0\<rparr>, None))"
proof -
  have s: "scanLocksInRegionWithStartKey movedLater (world0\<lparr>sleeps := [2]\<rparr>) (cur_bo sweep0)
             (cur_key sweep0) 100 (gcScanLockLimit movedLater)
           = Some (world0\<lparr>sleeps := [2]\<rparr>, Returns ([lk7, lk8], Some loc8, None))"
    by (simp add: movedLater_scan world0_def)
  have r: "batchResolveLocksInARegion movedLater (world0\<lparr>sleeps := [2]\<rparr>) (cur_bo sweep0)
             [lk7, lk8] (Some loc8)
           = Some (world0\<lparr>sleeps := [2]\<rparr>, Returns (Some loc8, None))"
    using movedLater_resolved by (simp add: sweep0_def)
  have "sweepIteration movedLater () 100 [8] (world0\<lparr>sleeps := [2]\<rparr>) sweep0
          = Some (world0\<lparr>sleeps := [2]\<rparr>,
                  Done (Returns (\<lparr>CompletedRegions = 0, FailedRegions = 0\<rparr>, None)))"
    by (simp add: sweepIteration_def s r)
       (simp add: movedLater_def twoLocks_def quiet_def gcScanLockLimit_def sweepAdvance_def
          lk8_def sweep0_def)
  then show ?thesis
    by (subst sweepLoop.simps) simp
qed

theorem rescan_sentinel_witness:
  "batchResolveLocksInARegion movedLater world0 0 [lk7, lk8] (Some loc9)
     = Some (world0\<lparr>sleeps := [2]\<rparr>, Returns (None, None)) \<and>
   sweepIteration movedLater () 100 [8] world0 sweep0
     = Some (world0\<lparr>sleeps := [2]\<rparr>, Next sweep0) \<and>
   sweepLoop movedLater () 100 [8] world0 sweep0
     = Some (world0\<lparr>sleeps := [2]\<rparr>,
             Returns (\<lparr>CompletedRegions = 0, FailedRegions = 0\<rparr>, None))"
proof -
  let ?w1 = "world0\<lparr>sleeps := [1]\<rparr>"
  let ?w2 = "world0\<lparr>sleeps := [2]\<rparr>"
  have rounds: "rtranclp (resolveRound movedLater 0 [lk7, lk8]) (world0, loc9) (?w1, loc9)"
    using movedLater_round by (rule r_into_rtranclp)
  have a: "BatchResolveLocks movedLater ?w1 0 [lk7, lk8] (Region loc9) = (?w1, False, None) \<and>
      Backoff movedLater ?w1 0 BoTxnLock (RemainLocks (length [lk7, lk8])) = (?w2, None) \<and>
      [lk7, lk8] \<noteq> [] \<and>
      LocateKey movedLater ?w2 0 (Key (hd [lk7, lk8])) = (?w2, Some loc8, None) \<and>
      \<not> Contains movedLater loc8 (Key (last [lk7, lk8]))"
    by (simp add: movedLater_def twoLocks_def quiet_def world0_def lk8_def loc8_def)
  have r: "batchResolveLocksInARegion movedLater world0 0 [lk7, lk8] (Some loc9)
             = Some (?w2, Returns (None, None))"
    using rescan_sentinel [of movedLater 0 "[lk7, lk8]" world0 loc9 ?w1 loc9 ?w1 ?w2 ?w2 loc8]
      rounds a by blast
  have nd: "\<not> ctxDone movedLater world0 ()"
    by (simp add: movedLater_def twoLocks_def quiet_def)
  have s: "scanLocksInRegionWithStartKey movedLater world0 (cur_bo sweep0) (cur_key sweep0) 100
             (gcScanLockLimit movedLater) = Some (world0, Returns ([lk7, lk8], Some loc9, None))"
    by (simp add: movedLater_scan world0_def)
  have r': "batchResolveLocksInARegion movedLater world0 (cur_bo sweep0) [lk7, lk8] (Some loc9)
             = Some (?w2, Returns (None, None))"
    using r by (simp add: sweep0_def)
  from rescan_sentinel [of movedLater 0 "[lk7, lk8]" world0 loc9 ?w1 loc9 ?w1 ?w2 ?w2 loc8
      world0 "()" sweep0 100 world0 "[lk7, lk8]" "Some loc9" ?w2 "[8]"] nd s r'
  have "sweepIteration movedLater () 100 [8] world0 sweep0 = Some (?w2, Next sweep0)"
    and "sweepLoop movedLater () 100 [8] world0 sweep0
           = sweepLoop movedLater () 100 [8] ?w2 sweep0"
    by blast+
  with r movedLater_finishes show ?thesis by simp
qed

text \<open>
  C10, as the code has it. The first iteration of the sweep loop of
  \<open>resolveLocksForRange\<close> begins with a backoffer newly made by
  \<open>NewGcResolveLockMaxBackoffer\<close>. An iteration that goes on to a next one either was
  completed, and then the next iteration's backoffer is a new one, made by
  \<open>NewGcResolveLockMaxBackoffer\<close> after the bulk resolution; or it ended on the rescan
  sentinel, and then the next iteration starts from the same loop state, with the backoffer
  this iteration has used. So the budget is new for each completed iteration, and the
  rescans of one key share one budget.
\<close>

theorem backoffer_new_after_completed_iteration:
  "(NewGcResolveLockMaxBackoffer env w ctx = (w0, bo0)
    \<longrightarrow> resolveLocksForRange env w ctx safePoint startKey endKey
          = sweepLoop env ctx safePoint endKey w0
              \<lparr>cur_stat = \<lparr>CompletedRegions = 0, FailedRegions = 0\<rparr>,
               cur_key = startKey, cur_bo = bo0\<rparr>)
   \<and>
   (sweepIteration env ctx safePoint endKey v st = Some (v', Next st')
    \<longrightarrow> sweepLoop env ctx safePoint endKey v st = sweepLoop env ctx safePoint endKey v' st' \<and>
        ((st' = st \<and>
          (\<exists>v1 locks loc.
             scanLocksInRegionWithStartKey env v (cur_bo st) (cur_key st) safePoint
               (gcScanLockLimit env) = Some (v1, Returns (locks, loc, None)) \<and>
             batchResolveLocksInARegion env v1 (cur_bo st) locks loc
               = Some (v', Returns (None, None))))
         \<or> (\<exists>v1 v2 locks loc resolved.
               scanLocksInRegionWithStartKey env v (cur_bo st) (cur_key st) safePoint
                 (gcScanLockLimit env) = Some (v1, Returns (locks, loc, None)) \<and>
               batchResolveLocksInARegion env v1 (cur_bo st) locks loc
                 = Some (v2, Returns (Some resolved, None)) \<and>
               NewGcResolveLockMaxBackoffer env v2 ctx = (v', cur_bo st'))))"
proof (intro conjI impI)
  assume "NewGcResolveLockMaxBackoffer env w ctx = (w0, bo0)"
  then show "resolveLocksForRange env w ctx safePoint startKey endKey
          = sweepLoop env ctx safePoint endKey w0
              \<lparr>cur_stat = \<lparr>CompletedRegions = 0, FailedRegions = 0\<rparr>,
               cur_key = startKey, cur_bo = bo0\<rparr>"
    by (simp add: resolveLocksForRange_def)
next
  assume it: "sweepIteration env ctx safePoint endKey v st = Some (v', Next st')"
  show "sweepLoop env ctx safePoint endKey v st = sweepLoop env ctx safePoint endKey v' st'"
    by (subst sweepLoop.simps) (simp add: it)
next
  assume it: "sweepIteration env ctx safePoint endKey v st = Some (v', Next st')"
  then show "(st' = st \<and>
          (\<exists>v1 locks loc.
             scanLocksInRegionWithStartKey env v (cur_bo st) (cur_key st) safePoint
               (gcScanLockLimit env) = Some (v1, Returns (locks, loc, None)) \<and>
             batchResolveLocksInARegion env v1 (cur_bo st) locks loc
               = Some (v', Returns (None, None))))
         \<or> (\<exists>v1 v2 locks loc resolved.
               scanLocksInRegionWithStartKey env v (cur_bo st) (cur_key st) safePoint
                 (gcScanLockLimit env) = Some (v1, Returns (locks, loc, None)) \<and>
               batchResolveLocksInARegion env v1 (cur_bo st) locks loc
                 = Some (v2, Returns (Some resolved, None)) \<and>
               NewGcResolveLockMaxBackoffer env v2 ctx = (v', cur_bo st'))"
    by (auto simp: sweepIteration_def sweepAdvance_def
             split: if_splits option.splits result.splits prod.splits list.splits)
qed

lemma oneLock_iteration:
  "sweepIteration oneLock () 100 [] world0 sweep0
     = Some (world1, Next \<lparr>cur_stat = \<lparr>CompletedRegions = 1, FailedRegions = 0\<rparr>,
                            cur_key = [9], cur_bo = 1\<rparr>)"
  by (simp add: sweepIteration_def sweepAdvance_def oneLock_scan oneLock_resolve)
     (simp add: oneLock_def quiet_def gcScanLockLimit_def lk7_def loc9_def sweep0_def
        world0_def world1_def newBackoffer_def)

theorem backoffer_new_after_completed_iteration_witness:
  "resolveLocksForRange quiet world0 () 100 [1] [9]
     = sweepLoop quiet () 100 [9] world1
         \<lparr>cur_stat = \<lparr>CompletedRegions = 0, FailedRegions = 0\<rparr>, cur_key = [1], cur_bo = 1\<rparr> \<and>
   sweepIteration oneLock () 100 [] world0 sweep0
     = Some (world1, Next \<lparr>cur_stat = \<lparr>CompletedRegions = 1, FailedRegions = 0\<rparr>,
                            cur_key = [9], cur_bo = 1\<rparr>) \<and>
   (\<exists>v2. NewGcResolveLockMaxBackoffer oneLock v2 () = (world1, 1))"
proof -
  have new: "NewGcResolveLockMaxBackoffer quiet world0 () = (world1, 1)"
    by (simp add: quiet_def newBackoffer_def world0_def world1_def)
  have ne: "\<lparr>cur_stat = \<lparr>CompletedRegions = 1, FailedRegions = 0\<rparr>, cur_key = [9], cur_bo = 1\<rparr>
              \<noteq> sweep0"
    by (simp add: sweep0_def)
  from backoffer_new_after_completed_iteration
         [of quiet world0 "()" world1 1 100 "[1]" "[9]"] new
  have first: "resolveLocksForRange quiet world0 () 100 [1] [9]
     = sweepLoop quiet () 100 [9] world1
         \<lparr>cur_stat = \<lparr>CompletedRegions = 0, FailedRegions = 0\<rparr>, cur_key = [1], cur_bo = 1\<rparr>"
    by blast
  from backoffer_new_after_completed_iteration
         [of oneLock world0 "()" world1 1 100 "[]" "[]" world0 sweep0 world1
             "\<lparr>cur_stat = \<lparr>CompletedRegions = 1, FailedRegions = 0\<rparr>, cur_key = [9], cur_bo = 1\<rparr>"]
       oneLock_iteration ne
  have "\<exists>v2. NewGcResolveLockMaxBackoffer oneLock v2 () = (world1, 1)"
    by (simp del: One_nat_def) blast
  with first oneLock_iteration show ?thesis by blast
qed

text \<open>
  C10 as stated fails: after an iteration that ends on the rescan sentinel, the next
  iteration begins with the backoffer the last one used. Here backoffer 0 has backed off
  once when the next iteration starts, and no backoffer has been made.
\<close>

theorem backoffer_kept_after_rescan_counterexample:
  "sleeps world0 = [0] \<and> cur_bo sweep0 = 0 \<and>
   sweepIteration moved () 100 [] world0 sweep0
     = Some (\<lparr>sleeps = [1], pdSafePoint = 0\<rparr>, Next sweep0)"
  by (simp add: sweepIteration_def moved_scan)
     (simp add: moved_def twoLocks_def quiet_def world0_def sweep0_def gcScanLockLimit_def
        batchResolveLocksInARegion.simps lk7_def lk8_def)

text \<open>
  C7, as the code has it. When the sweep fails, \<open>GC\<close> returns 0 with the error of the
  sweep. When the sweep ends without error, \<open>GC\<close> returns the value and the error that
  the update of the safe point returned, whatever they are. Let the placement service
  answer an update without error with a value that is at least the value asked for and at
  least the value it had stored, and store it. Then a \<open>GC\<close> that returns no error
  returns a safe point that is not below its argument, and not below the result of an
  earlier \<open>GC\<close> without error, as long as the stored safe point has not gone back
  between that result and this update.
\<close>

theorem gc_safe_point_on_success:
  assumes pd: "\<forall>w c sp w' n. UpdateGCSafePoint env w c sp = (w', n, None)
                 \<longrightarrow> sp \<le> n \<and> stored w \<le> n \<and> stored w' = n"
  shows "(GC env w ctx sp = Some (w', Returns (n, None)) \<longrightarrow> sp \<le> n \<and> stored w' = n)
       \<and> (resolveLocks env w ctx sp 8 = Some (w1, Returns (Some e))
            \<longrightarrow> GC env w ctx sp = Some (w1, Returns (0, Some e)))
       \<and> (resolveLocks env w ctx sp 8 = Some (w1, Returns None) \<and>
          UpdateGCSafePoint env w1 ctx sp = (w2, m, eo)
            \<longrightarrow> GC env w ctx sp = Some (w2, Returns (m, eo)))
       \<and> (GC env wA ctx spA = Some (wA', Returns (nA, None)) \<and>
          GC env wB ctx spB = Some (wB', Returns (nB, None)) \<and>
          (\<forall>wb. resolveLocks env wB ctx spB 8 = Some (wb, Returns None)
                  \<longrightarrow> stored wA' \<le> stored wb)
            \<longrightarrow> nA \<le> nB)"
proof -
  have 1: "sp \<le> n \<and> stored w' = n" if "GC env w ctx sp = Some (w', Returns (n, None))"
  proof -
    from that obtain wa where "UpdateGCSafePoint env wa ctx sp = (w', n, None)"
      by (auto simp: GC_def split: option.splits result.splits prod.splits)
    with pd show ?thesis by blast
  qed
  have 2: "GC env w ctx sp = Some (w1, Returns (0, Some e))"
    if "resolveLocks env w ctx sp 8 = Some (w1, Returns (Some e))"
    using that by (simp add: GC_def)
  have 3: "GC env w ctx sp = Some (w2, Returns (m, eo))"
    if "resolveLocks env w ctx sp 8 = Some (w1, Returns None) \<and>
        UpdateGCSafePoint env w1 ctx sp = (w2, m, eo)"
    using that by (simp add: GC_def)
  have 4: "nA \<le> nB"
    if h: "GC env wA ctx spA = Some (wA', Returns (nA, None)) \<and>
          GC env wB ctx spB = Some (wB', Returns (nB, None)) \<and>
          (\<forall>wb. resolveLocks env wB ctx spB 8 = Some (wb, Returns None)
                  \<longrightarrow> stored wA' \<le> stored wb)"
  proof -
    from h obtain wa where a: "UpdateGCSafePoint env wa ctx spA = (wA', nA, None)"
      by (auto simp: GC_def split: option.splits result.splits prod.splits)
    from h obtain wb where b: "resolveLocks env wB ctx spB 8 = Some (wb, Returns None)"
        and b': "UpdateGCSafePoint env wb ctx spB = (wB', nB, None)"
      by (auto simp: GC_def split: option.splits result.splits prod.splits)
    from pd a have "stored wA' = nA" by blast
    moreover from h b have "stored wA' \<le> stored wb" by blast
    moreover from pd b' have "stored wb \<le> nB" by blast
    ultimately show ?thesis by simp
  qed
  from 1 2 3 4 show ?thesis by blast
qed

lemma quiet_resolveLocks:
  "resolveLocks quiet w () sp 8 = Some (w\<lparr>sleeps := sleeps w @ [0]\<rparr>, Returns None)"
  by (simp add: resolveLocks_def resolveLocksForRange_def quiet_def newBackoffer_def
        sweepLoop.simps sweepIteration_def sweepAdvance_def gcScanLockLimit_def
        scanLocksInRegionWithStartKey.simps batchResolveLocksInARegion.simps)

lemma quiet_GC:
  "GC quiet w () sp = Some (w\<lparr>sleeps := sleeps w @ [0], pdSafePoint := max (pdSafePoint w) sp\<rparr>,
                            Returns (max (pdSafePoint w) sp, None))"
  by (simp add: GC_def quiet_resolveLocks) (simp add: quiet_def)

lemma canceled_resolveLocks:
  "resolveLocks canceled world0 () 100 8 = Some (world1, Returns (Some GcJobCanceled))"
  by (simp add: resolveLocks_def resolveLocksForRange_def canceled_def quiet_def world0_def
        world1_def newBackoffer_def sweepLoop.simps sweepIteration_def)

lemma updFails_resolveLocks:
  "resolveLocks updFails world0 () 100 8 = Some (world1, Returns None)"
  by (simp add: resolveLocks_def resolveLocksForRange_def updFails_def quiet_def
        newBackoffer_def sweepLoop.simps sweepIteration_def sweepAdvance_def gcScanLockLimit_def
        scanLocksInRegionWithStartKey.simps batchResolveLocksInARegion.simps world0_def
        world1_def)

theorem gc_safe_point_on_success_witness:
  "GC quiet world0 () 100 = Some (world1\<lparr>pdSafePoint := 100\<rparr>, Returns (100, None)) \<and>
   GC quiet (world1\<lparr>pdSafePoint := 100\<rparr>) () 90
     = Some (\<lparr>sleeps = [0, 0, 0], pdSafePoint = 100\<rparr>, Returns (100, None)) \<and>
   (90 :: 64 word) \<le> 100 \<and> (100 :: 64 word) \<le> 100 \<and>
   GC canceled world0 () 100 = Some (world1, Returns (0, Some GcJobCanceled)) \<and>
   GC updFails world0 () 100 = Some (world1, Returns (7, Some (External 9)))"
proof -
  have pdq: "\<forall>w c sp w' n. UpdateGCSafePoint quiet w c sp = (w', n, None)
               \<longrightarrow> sp \<le> n \<and> pdSafePoint w \<le> n \<and> pdSafePoint w' = n"
    by (auto simp: quiet_def)
  have pdc: "\<forall>w c sp w' n. UpdateGCSafePoint canceled w c sp = (w', n, None)
               \<longrightarrow> sp \<le> n \<and> pdSafePoint w \<le> n \<and> pdSafePoint w' = n"
    by (auto simp: canceled_def quiet_def)
  have pdu: "\<forall>w c sp w' n. UpdateGCSafePoint updFails w c sp = (w', n, None)
               \<longrightarrow> sp \<le> n \<and> pdSafePoint w \<le> n \<and> pdSafePoint w' = n"
    by (auto simp: updFails_def quiet_def)
  have g1: "GC quiet world0 () 100 = Some (world1\<lparr>pdSafePoint := 100\<rparr>, Returns (100, None))"
    by (simp add: quiet_GC world0_def world1_def)
  have g2: "GC quiet (world1\<lparr>pdSafePoint := 100\<rparr>) () 90
              = Some (\<lparr>sleeps = [0, 0, 0], pdSafePoint = 100\<rparr>, Returns (100, None))"
    by (simp add: quiet_GC world1_def)
  have between: "\<forall>wb. resolveLocks quiet (world1\<lparr>pdSafePoint := 100\<rparr>) () 90 8
                         = Some (wb, Returns None)
                   \<longrightarrow> pdSafePoint (world1\<lparr>pdSafePoint := 100\<rparr>) \<le> pdSafePoint wb"
    by (simp add: quiet_resolveLocks)
  from gc_safe_point_on_success [of quiet pdSafePoint, OF pdq] g2 g1 between
  have "(90 :: 64 word) \<le> 100" and "(100 :: 64 word) \<le> 100"
    by blast+
  moreover from gc_safe_point_on_success [of canceled pdSafePoint, OF pdc] canceled_resolveLocks
  have "GC canceled world0 () 100 = Some (world1, Returns (0, Some GcJobCanceled))"
    by blast
  moreover have "UpdateGCSafePoint updFails world1 () 100 = (world1, 7, Some (External 9))"
    by (simp add: updFails_def)
  with gc_safe_point_on_success [of updFails pdSafePoint, OF pdu] updFails_resolveLocks
  have "GC updFails world0 () 100 = Some (world1, Returns (7, Some (External 9)))"
    by blast
  ultimately show ?thesis using g1 g2 by blast
qed

text \<open>
  C7 as stated fails on both kinds of error. With the context canceled the sweep returns
  an error, and \<open>GC\<close> called with safe point 100 returns 0. With a sweep that finds
  nothing and an update that fails, returning 7 beside its error, \<open>GC\<close> called with safe
  point 100 returns 7. Both are less than 100.
\<close>

theorem gc_below_argument_on_error_counterexample:
  "GC canceled world0 () 100 = Some (world1, Returns (0, Some GcJobCanceled)) \<and>
   \<not> (100 :: 64 word) \<le> 0 \<and>
   GC updFails world0 () 100 = Some (world1, Returns (7, Some (External 9))) \<and>
   \<not> (100 :: 64 word) \<le> 7"
  by (simp add: GC_def canceled_resolveLocks updFails_resolveLocks) (simp add: updFails_def)

section \<open>Properties of the scatter coordinator\<close>

lemma waitRound_continues:
  assumes "waitRound env ctx b rid x y"
  shows "waitScatterLoop env (fst x) ctx b rid (snd x) = waitScatterLoop env (fst y) ctx b rid (snd y)"
proof -
  obtain w1 op e where g: "GetOperator env (fst x) ctx rid = (w1, op, e)"
    by (cases "GetOperator env (fst x) ctx rid") auto
  show ?thesis
    using assms g
    by (subst waitScatterLoop.simps)
       (auto simp: waitRound_def split: option.splits)
qed

lemma waitRounds_continue:
  assumes "rtranclp (waitRound env ctx b rid) x y"
  shows "waitScatterLoop env (fst x) ctx b rid (snd x) = waitScatterLoop env (fst y) ctx b rid (snd y)"
  using assms
  by (induction rule: rtranclp_induct) (simp_all add: waitRound_continues)

lemma waitScatterLoop_nil:
  assumes "waitScatterLoop env w ctx b rid k = Some y"
  shows "\<forall>w'. y = (w', None) \<longrightarrow>
           (\<exists>wk kk op. rtranclp (waitRound env ctx b rid) (w, k) (wk, kk) \<and>
              GetOperator env wk ctx rid = (w', Some op, None) \<and>
              (Desc op \<noteq> scatter_region \<or> Status op \<noteq> RUNNING))"
proof (rule waitScatterLoop.raw_induct
    [where P = "\<lambda>env w ctx b rid k y. \<forall>w'. y = (w', None) \<longrightarrow>
           (\<exists>wk kk op. rtranclp (waitRound env ctx b rid) (w, k) (wk, kk) \<and>
              GetOperator env wk ctx rid = (w', Some op, None) \<and>
              (Desc op \<noteq> scatter_region \<or> Status op \<noteq> RUNNING))", OF _ assms])
  fix loop :: "('a, 'b, 'c) env \<Rightarrow> 'a \<Rightarrow> 'c \<Rightarrow> 'b \<Rightarrow> 64 word \<Rightarrow> nat \<Rightarrow> ('a \<times> error option) option"
  fix env w ctx bo rid logFreq y
  assume IH: "\<And>env w ctx bo rid logFreq y. loop env w ctx bo rid logFreq = Some y \<Longrightarrow>
     \<forall>w'. y = (w', None) \<longrightarrow>
       (\<exists>wk kk op. rtranclp (waitRound env ctx bo rid) (w, logFreq) (wk, kk) \<and>
          GetOperator env wk ctx rid = (w', Some op, None) \<and>
          (Desc op \<noteq> scatter_region \<or> Status op \<noteq> RUNNING))"
  assume body: "(case GetOperator env w ctx rid of
       (w1, Some op, None) \<Rightarrow>
        (if Desc op \<noteq> scatter_region \<or> Status op \<noteq> RUNNING then Some (w1, None)
         else
          (case HeaderError op of
             Some h \<Rightarrow> Some (w1, Some (PDError h))
           | None \<Rightarrow>
              (case Backoff env w1 bo BoRegionMiss WaitScatterRegionTimeout of
                 (w2, Some e2) \<Rightarrow> Some (w2, Some e2)
               | (w2, None) \<Rightarrow> loop env w2 ctx bo rid (logFreq + 1))))
     | (w1, None, None) \<Rightarrow>
        (case Backoff env w1 bo BoRegionMiss WaitScatterRegionTimeout of
           (w2, Some e2) \<Rightarrow> Some (w2, Some e2)
         | (w2, None) \<Rightarrow> loop env w2 ctx bo rid logFreq)
     | (w1, op, Some e) \<Rightarrow>
        (case Backoff env w1 bo BoRegionMiss (ErrorText e) of
           (w2, Some e2) \<Rightarrow> Some (w2, Some e2)
         | (w2, None) \<Rightarrow> loop env w2 ctx bo rid logFreq)) = Some y"
  have step: "\<exists>wk kk op. rtranclp (waitRound env ctx bo rid) (w, logFreq) (wk, kk) \<and>
          GetOperator env wk ctx rid = (w', Some op, None) \<and>
          (Desc op \<noteq> scatter_region \<or> Status op \<noteq> RUNNING)"
    if r: "waitRound env ctx bo rid (w, logFreq) (w2, k2)"
      and l: "loop env w2 ctx bo rid k2 = Some (w', None)" for w2 k2 w'
  proof -
    from IH [OF l] obtain wk kk op
      where "rtranclp (waitRound env ctx bo rid) (w2, k2) (wk, kk)"
        and "GetOperator env wk ctx rid = (w', Some op, None)"
        and "Desc op \<noteq> scatter_region \<or> Status op \<noteq> RUNNING"
      by blast
    with r show ?thesis
      by (blast intro: converse_rtranclp_into_rtranclp)
  qed
  show "\<forall>w'. y = (w', None) \<longrightarrow>
       (\<exists>wk kk op. rtranclp (waitRound env ctx bo rid) (w, logFreq) (wk, kk) \<and>
          GetOperator env wk ctx rid = (w', Some op, None) \<and>
          (Desc op \<noteq> scatter_region \<or> Status op \<noteq> RUNNING))"
  proof (intro allI impI)
    fix w' assume y: "y = (w', None)"
    obtain w1 op e where g: "GetOperator env w ctx rid = (w1, op, e)"
      by (cases "GetOperator env w ctx rid") auto
    show "\<exists>wk kk op. rtranclp (waitRound env ctx bo rid) (w, logFreq) (wk, kk) \<and>
          GetOperator env wk ctx rid = (w', Some op, None) \<and>
          (Desc op \<noteq> scatter_region \<or> Status op \<noteq> RUNNING)"
    proof (cases e)
      case (Some e1)
      obtain w2 e2 where k: "Backoff env w1 bo BoRegionMiss (ErrorText e1) = (w2, e2)"
        by (cases "Backoff env w1 bo BoRegionMiss (ErrorText e1)") auto
      from body g Some k y have e2: "e2 = None" and l: "loop env w2 ctx bo rid logFreq = Some (w', None)"
        by (auto split: option.splits)
      have "waitRound env ctx bo rid (w, logFreq) (w2, logFreq)"
        using g Some k e2 by (auto simp: waitRound_def split: option.splits)
      from step [OF this l] show ?thesis .
    next
      case None
      show ?thesis
      proof (cases op)
        case None' : None
        obtain w2 e2 where k: "Backoff env w1 bo BoRegionMiss WaitScatterRegionTimeout = (w2, e2)"
          by (cases "Backoff env w1 bo BoRegionMiss WaitScatterRegionTimeout") auto
        from body g None None' k y have e2: "e2 = None"
            and l: "loop env w2 ctx bo rid logFreq = Some (w', None)"
          by (auto split: option.splits)
        have "waitRound env ctx bo rid (w, logFreq) (w2, logFreq)"
          using g None None' k e2 by (simp add: waitRound_def)
        from step [OF this l] show ?thesis .
      next
        case (Some o1)
        show ?thesis
        proof (cases "Desc o1 \<noteq> scatter_region \<or> Status o1 \<noteq> RUNNING")
          case True
          with body g None Some y have "w' = w1" by simp
          with g None Some True show ?thesis by blast
        next
          case False
          obtain w2 e2 where k: "Backoff env w1 bo BoRegionMiss WaitScatterRegionTimeout = (w2, e2)"
            by (cases "Backoff env w1 bo BoRegionMiss WaitScatterRegionTimeout") auto
          from body g None Some False k y have h: "HeaderError o1 = None" and e2: "e2 = None"
              and l: "loop env w2 ctx bo rid (logFreq + 1) = Some (w', None)"
            by (auto split: option.splits)
          have "waitRound env ctx bo rid (w, logFreq) (w2, logFreq + 1)"
            using g None Some False k e2 h by (simp add: waitRound_def)
          from step [OF this l] show ?thesis .
        qed
      qed
    qed
  qed
qed

text \<open>
  C4, as the code has it. \<open>WaitScatterRegionFinish\<close> makes its backoffer and polls. Take
  a poll reached after any number of rounds that went on. If it returns, without error,
  an operator that is not a "scatter-region" operator or whose status is not RUNNING, the
  call returns nil, also when the header of that operator carries an error: this test comes
  first. If it returns, without error, a running "scatter-region" operator whose header
  carries an error, the call returns that error at once. And the call returns nil only on
  such a poll of an operator that is not a running "scatter-region" operator.
\<close>

theorem wait_scatter_header_error_only_when_running:
  "(NewBackofferWithVars env w ctx
      (if backOff \<le> 0 then waitScatterRegionFinishBackoff else backOff) = (w0, b) \<and>
    rtranclp (waitRound env ctx b rid) (w0, 0) (wk, k) \<and>
    GetOperator env wk ctx rid = (w1, Some op, None) \<and>
    Desc op = scatter_region \<and> Status op = RUNNING \<and> HeaderError op = Some h
    \<longrightarrow> WaitScatterRegionFinish env w ctx rid backOff = Some (w1, Some (PDError h)))
   \<and>
   (NewBackofferWithVars env w ctx
      (if backOff \<le> 0 then waitScatterRegionFinishBackoff else backOff) = (w0, b) \<and>
    rtranclp (waitRound env ctx b rid) (w0, 0) (wk, k) \<and>
    GetOperator env wk ctx rid = (w1, Some op, None) \<and>
    (Desc op \<noteq> scatter_region \<or> Status op \<noteq> RUNNING)
    \<longrightarrow> WaitScatterRegionFinish env w ctx rid backOff = Some (w1, None))
   \<and>
   (NewBackofferWithVars env w ctx
      (if backOff \<le> 0 then waitScatterRegionFinishBackoff else backOff) = (w0, b) \<and>
    WaitScatterRegionFinish env w ctx rid backOff = Some (v, None)
    \<longrightarrow> (\<exists>wj j op'. rtranclp (waitRound env ctx b rid) (w0, 0) (wj, j) \<and>
           GetOperator env wj ctx rid = (v, Some op', None) \<and>
           (Desc op' \<noteq> scatter_region \<or> Status op' \<noteq> RUNNING)))"
proof (intro conjI impI)
  assume h: "NewBackofferWithVars env w ctx
      (if backOff \<le> 0 then waitScatterRegionFinishBackoff else backOff) = (w0, b) \<and>
    rtranclp (waitRound env ctx b rid) (w0, 0) (wk, k) \<and>
    GetOperator env wk ctx rid = (w1, Some op, None) \<and>
    Desc op = scatter_region \<and> Status op = RUNNING \<and> HeaderError op = Some h"
  then have "waitScatterLoop env wk ctx b rid k = Some (w1, Some (PDError h))"
    by (subst waitScatterLoop.simps) simp
  moreover from h have "waitScatterLoop env w0 ctx b rid 0 = waitScatterLoop env wk ctx b rid k"
    using waitRounds_continue [of env ctx b rid "(w0, 0)" "(wk, k)"] by simp
  ultimately show "WaitScatterRegionFinish env w ctx rid backOff = Some (w1, Some (PDError h))"
    using h by (simp add: WaitScatterRegionFinish_def)
next
  assume h: "NewBackofferWithVars env w ctx
      (if backOff \<le> 0 then waitScatterRegionFinishBackoff else backOff) = (w0, b) \<and>
    rtranclp (waitRound env ctx b rid) (w0, 0) (wk, k) \<and>
    GetOperator env wk ctx rid = (w1, Some op, None) \<and>
    (Desc op \<noteq> scatter_region \<or> Status op \<noteq> RUNNING)"
  then have "waitScatterLoop env wk ctx b rid k = Some (w1, None)"
    by (subst waitScatterLoop.simps) auto
  moreover from h have "waitScatterLoop env w0 ctx b rid 0 = waitScatterLoop env wk ctx b rid k"
    using waitRounds_continue [of env ctx b rid "(w0, 0)" "(wk, k)"] by simp
  ultimately show "WaitScatterRegionFinish env w ctx rid backOff = Some (w1, None)"
    using h by (simp add: WaitScatterRegionFinish_def)
next
  assume h: "NewBackofferWithVars env w ctx
      (if backOff \<le> 0 then waitScatterRegionFinishBackoff else backOff) = (w0, b) \<and>
    WaitScatterRegionFinish env w ctx rid backOff = Some (v, None)"
  then have "waitScatterLoop env w0 ctx b rid 0 = Some (v, None)"
    by (auto simp: WaitScatterRegionFinish_def)
  from waitScatterLoop_nil [OF this]
  show "\<exists>wj j op'. rtranclp (waitRound env ctx b rid) (w0, 0) (wj, j) \<and>
           GetOperator env wj ctx rid = (v, Some op', None) \<and>
           (Desc op' \<noteq> scatter_region \<or> Status op' \<noteq> RUNNING)"
    by blast
qed

lemma flaky_new:
  "NewBackofferWithVars (flaky say) world0 () n = (world1, 1)"
  by (simp add: flaky_def quiet_def newBackoffer_def world0_def world1_def)

lemma flaky_waitRound:
  "waitRound (flaky say) () 1 rid (world1, 0) (world2, 0)"
  by (simp add: waitRound_def flaky_def quiet_def world1_def world2_def)

lemma flaky_poll:
  "GetOperator (flaky say) world2 () rid = (world2, Some say, None)"
  by (simp add: flaky_def quiet_def world2_def)

theorem wait_scatter_header_error_only_when_running_witness:
  "WaitScatterRegionFinish (flaky failedRunningOp) world0 () 5 0 = Some (world2, Some (PDError 1)) \<and>
   WaitScatterRegionFinish (flaky failedIdleOp) world0 () 5 0 = Some (world2, None) \<and>
   (\<exists>wj j op'. rtranclp (waitRound (flaky failedIdleOp) () 1 5) (world1, 0) (wj, j) \<and>
      GetOperator (flaky failedIdleOp) wj () 5 = (world2, Some op', None) \<and>
      (Desc op' \<noteq> scatter_region \<or> Status op' \<noteq> RUNNING))"
proof -
  have rounds: "rtranclp (waitRound (flaky say) () 1 5) (world1, 0) (world2, 0)" for say
    using flaky_waitRound by (rule r_into_rtranclp)
  have a: "WaitScatterRegionFinish (flaky failedRunningOp) world0 () 5 0
             = Some (world2, Some (PDError 1))"
    using wait_scatter_header_error_only_when_running
            [of "flaky failedRunningOp" world0 "()" 0 world1 1 5 world2 0 world2 failedRunningOp 1]
          flaky_new [of failedRunningOp] rounds [of failedRunningOp] flaky_poll [of failedRunningOp 5]
    by (simp add: failedRunningOp_def)
  have b: "WaitScatterRegionFinish (flaky failedIdleOp) world0 () 5 0 = Some (world2, None)"
    using wait_scatter_header_error_only_when_running
            [of "flaky failedIdleOp" world0 "()" 0 world1 1 5 world2 0 world2 failedIdleOp]
          flaky_new [of failedIdleOp] rounds [of failedIdleOp] flaky_poll [of failedIdleOp 5]
    by (simp add: failedIdleOp_def)
  from wait_scatter_header_error_only_when_running
         [of "flaky failedIdleOp" world0 "()" 0 world1 1 5 _ _ _ _ _ world2]
       flaky_new [of failedIdleOp] b
  have "\<exists>wj j op'. rtranclp (waitRound (flaky failedIdleOp) () 1 5) (world1, 0) (wj, j) \<and>
      GetOperator (flaky failedIdleOp) wj () 5 = (world2, Some op', None) \<and>
      (Desc op' \<noteq> scatter_region \<or> Status op' \<noteq> RUNNING)"
    by simp
  with a b show ?thesis by blast
qed

text \<open>
  C4 as stated fails: the placement service returns an operator whose header carries an
  error, and that is not a running "scatter-region" operator; the call returns nil, not the
  error.
\<close>

theorem wait_scatter_header_error_ignored_counterexample:
  "GetOperator headerErrIdle world1 () 5 = (world1, Some failedIdleOp, None) \<and>
   HeaderError failedIdleOp = Some 1 \<and>
   WaitScatterRegionFinish headerErrIdle world0 () 5 0 = Some (world1, None)"
  by (simp add: WaitScatterRegionFinish_def waitScatterLoop.simps headerErrIdle_def quiet_def
        newBackoffer_def world0_def world1_def failedIdleOp_def scatter_region_def)








section \<open>Properties of the pre-split heuristic\<close>

lemma preSplitLoop_spec:
  "preSplitLoop threshold ms i acc sk = sk @ spec_splitPoints threshold acc (drop i ms)"
proof (induction threshold ms i acc sk rule: preSplitLoop.induct)
  case (1 threshold ms i acc sk)
  show ?case
  proof (cases "i < length ms")
    case True
    obtain k v where kv: "ms ! i = (k, v)" by (cases "ms ! i") auto
    from True kv have d: "drop i ms = (k, v) # drop (Suc i) ms"
      by (simp add: Cons_nth_drop_Suc [symmetric])
    show ?thesis
      using True 1 kv by (subst preSplitLoop.simps) (simp add: d)
  next
    case False
    then show ?thesis by (subst preSplitLoop.simps) simp
  qed
qed

text \<open>
  C9. The loop of \<open>preSplitRegion\<close> finds the split points of the spec's words: the keys
  at which the sum of \<open>len(key) + len(value)\<close>, taken in order and set back to zero at each
  key found, reaches the threshold. \<open>preSplitRegion\<close> goes on with exactly these keys,
  and when there is none it returns false with the state as it was: no split request, no
  scatter request, no invalidation.
\<close>

theorem pre_split_points:
  "preSplitLoop threshold ms 0 0 [] = spec_splitPoints threshold 0 ms \<and>
   preSplitRegion fuel env s ctx g
     = preSplitWithKeys fuel env s ctx g
         (spec_splitPoints (unat (preSplitSizeThreshold env)) 0 (mutations g)) \<and>
   (spec_splitPoints (unat (preSplitSizeThreshold env)) 0 (mutations g) = []
    \<longrightarrow> preSplitRegion fuel env s ctx g = Some (s, Returns False))"
  by (simp add: preSplitLoop_spec preSplitRegion_def preSplitWithKeys_def)

theorem pre_split_points_witness:
  "spec_splitPoints (unat (preSplitSizeThreshold quiet)) 0 (mutations smallGroup) = [] \<and>
   preSplitRegion 0 quiet state0 () smallGroup = Some (state0, Returns False) \<and>
   preSplitLoop 4 (mutations bigGroup) 0 0 [] = [[3], [6, 7]]"
proof -
  note t = pre_split_points [of 4 "mutations bigGroup" 0 quiet state0 "()" smallGroup]
  have none: "spec_splitPoints (unat (preSplitSizeThreshold quiet)) 0 (mutations smallGroup) = []"
    by (simp add: quiet_def smallGroup_def)
  have big: "spec_splitPoints 4 0 (mutations bigGroup) = [[3], [6, 7]]"
    by (simp add: bigGroup_def)
  from t none have a: "preSplitRegion 0 quiet state0 () smallGroup = Some (state0, Returns False)"
    by blast
  from t have b: "preSplitLoop 4 (mutations bigGroup) 0 0 [] = spec_splitPoints 4 0 (mutations bigGroup)"
    by blast
  from none a b big show ?thesis by simp
qed

end
